theory Spec2Isabelle
  imports Complex_Main "HOL-Library.Multiset" "HOL-Library.Product_Lexorder"
    "HOL-Library.List_Lexorder" "HOL-Library.Char_ord" "HOL-Library.Log_Nat"
begin

section \<open>Python values\<close>

text \<open>
  The scorecard APIs answer with JSON and the program handles the decoded value with
  duck typing: \<open>in\<close>, \<open>.get\<close>, iteration, truthiness. A decoded value is a \<open>json\<close>;
  \<open>JNull\<close> is Python's \<open>None\<close> (and pandas' NaN once the value sits in a DataFrame).
  A \<open>JObj\<close> stands for a Python dict, so the keys of its association list are distinct.
  A number is held by its value, a rational: a whole value stands for a Python int (or
  for the float of that value, which behaves alike in all that follows), any other value
  for the double nearest to it, as the JSON decoder reads it. Strings are byte strings
  (UTF-8), so their order is the order of Python's strings, by code point.
\<close>

datatype json =
    JNull
  | JBool bool
  | JNum rat
  | JStr string
  | JList "json list"
  | JObj "(string \<times> json) list"

text \<open>The exceptions the modelled code can raise. \<open>UnboundLocalError\<close> is a \<open>NameError\<close>.\<close>

datatype error =
    HTTPError
  | JSONDecodeError
  | ValueError
  | TypeError
  | AttributeError
  | KeyError
  | NameError
  | IndexError
  | ZeroDivisionError
  | SystemExit

text \<open>\<open>bool(v)\<close>, as \<open>if v\<close> and \<open>not v\<close> use it.\<close>

fun truthy :: "json \<Rightarrow> bool" where
  "truthy JNull = False"
| "truthy (JBool b) = b"
| "truthy (JNum r) = (r \<noteq> 0)"
| "truthy (JStr s) = (s \<noteq> [])"
| "truthy (JList xs) = (xs \<noteq> [])"
| "truthy (JObj kvs) = (kvs \<noteq> [])"

subsection \<open>Exceptions\<close>

text \<open>A computation that may raise is a value of \<open>error + 'a\<close>; \<open>bindE\<close> runs the rest
  when nothing was raised, and \<open>Inl\<close> leaves through every enclosing statement.\<close>

definition bindE :: "error + 'a \<Rightarrow> ('a \<Rightarrow> error + 'b) \<Rightarrow> error + 'b" where
  "bindE m f = (case m of Inl e \<Rightarrow> Inl e | Inr x \<Rightarrow> f x)"

subsection \<open>Strings\<close>

text \<open>\<open>s.startswith(p)\<close>\<close>

fun startswith :: "string \<Rightarrow> string \<Rightarrow> bool" where
  "startswith s [] = True"
| "startswith [] (p # ps) = False"
| "startswith (c # s) (p # ps) = (c = p \<and> startswith s ps)"

text \<open>\<open>sub in s\<close> for two strings\<close>

fun contains :: "string \<Rightarrow> string \<Rightarrow> bool" where
  "contains [] sub = (sub = [])"
| "contains (c # s) sub = (startswith (c # s) sub \<or> contains s sub)"

text \<open>\<open>s.replace(old, '')\<close>: every occurrence of \<open>old\<close>, left to right, is removed.\<close>

fun remove_all :: "string \<Rightarrow> string \<Rightarrow> string" where
  "remove_all old [] = []"
| "remove_all old (c # s) =
     (if old \<noteq> [] \<and> startswith (c # s) old
      then remove_all old (drop (length old - 1) s)
      else c # remove_all old s)"

text \<open>
  \<open>s.strip()\<close> removes the leading and the trailing white space, the characters of
  \<open>str.isspace\<close>: U+0009 to U+000D, U+001C to U+0020, U+0085, U+00A0, U+1680, U+2000 to
  U+200A, U+2028, U+2029, U+202F, U+205F and U+3000, here in UTF-8.
\<close>

definition white_space :: "string list" where
  "white_space =
     [[CHR 0x09], [CHR 0x0A], [CHR 0x0B], [CHR 0x0C], [CHR 0x0D],
      [CHR 0x1C], [CHR 0x1D], [CHR 0x1E], [CHR 0x1F], [CHR 0x20],
      [CHR 0xC2, CHR 0x85], [CHR 0xC2, CHR 0xA0], [CHR 0xE1, CHR 0x9A, CHR 0x80],
      [CHR 0xE2, CHR 0x80, CHR 0x80], [CHR 0xE2, CHR 0x80, CHR 0x81],
      [CHR 0xE2, CHR 0x80, CHR 0x82], [CHR 0xE2, CHR 0x80, CHR 0x83],
      [CHR 0xE2, CHR 0x80, CHR 0x84], [CHR 0xE2, CHR 0x80, CHR 0x85],
      [CHR 0xE2, CHR 0x80, CHR 0x86], [CHR 0xE2, CHR 0x80, CHR 0x87],
      [CHR 0xE2, CHR 0x80, CHR 0x88], [CHR 0xE2, CHR 0x80, CHR 0x89],
      [CHR 0xE2, CHR 0x80, CHR 0x8A], [CHR 0xE2, CHR 0x80, CHR 0xA8],
      [CHR 0xE2, CHR 0x80, CHR 0xA9], [CHR 0xE2, CHR 0x80, CHR 0xAF],
      [CHR 0xE2, CHR 0x81, CHR 0x9F], [CHR 0xE3, CHR 0x80, CHR 0x80]]"

text \<open>The number of bytes of the character of \<open>ws\<close> that \<open>s\<close> begins with, 0 when it
  begins with none.\<close>

definition leading :: "string list \<Rightarrow> string \<Rightarrow> nat" where
  "leading ws s = (case filter (startswith s) ws of [] \<Rightarrow> 0 | w # _ \<Rightarrow> length w)"

fun lstrip :: "string list \<Rightarrow> string \<Rightarrow> string" where
  "lstrip ws [] = []"
| "lstrip ws (c # s) =
     (if leading ws (c # s) = 0 then c # s
      else lstrip ws (drop (leading ws (c # s) - 1) s))"

definition strip :: "string \<Rightarrow> string" where
  "strip s = rev (lstrip (map rev white_space) (rev (lstrip white_space s)))"

subsection \<open>Duck-typed operations\<close>

text \<open>\<open>k in v\<close> for a string \<open>k\<close>: a key of a dict, an element of a list, a substring of a
  string; anything else is not iterable.\<close>

fun py_in :: "string \<Rightarrow> json \<Rightarrow> error + bool" where
  "py_in k (JObj kvs) = Inr (k \<in> set (map fst kvs))"
| "py_in k (JList xs) = Inr (JStr k \<in> set xs)"
| "py_in k (JStr s) = Inr (contains s k)"
| "py_in k JNull = Inl TypeError"
| "py_in k (JBool b) = Inl TypeError"
| "py_in k (JNum r) = Inl TypeError"

text \<open>\<open>v.get(k, d)\<close>: only a dict has the method, so on anything else the first \<open>.get\<close>
  raises AttributeError.\<close>

definition dict_get :: "(string \<times> json) list \<Rightarrow> string \<Rightarrow> json \<Rightarrow> json" where
  "dict_get kvs k d = (case map_of kvs k of Some v \<Rightarrow> v | None \<Rightarrow> d)"

fun as_dict :: "json \<Rightarrow> error + (string \<times> json) list" where
  "as_dict (JObj kvs) = Inr kvs"
| "as_dict JNull = Inl AttributeError"
| "as_dict (JBool b) = Inl AttributeError"
| "as_dict (JNum r) = Inl AttributeError"
| "as_dict (JStr s) = Inl AttributeError"
| "as_dict (JList xs) = Inl AttributeError"

definition py_get :: "json \<Rightarrow> string \<Rightarrow> json \<Rightarrow> error + json" where
  "py_get v k d = bindE (as_dict v) (\<lambda>kvs. Inr (dict_get kvs k d))"

text \<open>\<open>v.replace(old, '').strip()\<close> and \<open>v.startswith(p)\<close>: only a string has the methods.\<close>

fun replace_strip :: "json \<Rightarrow> string \<Rightarrow> error + string" where
  "replace_strip (JStr s) old = Inr (strip (remove_all old s))"
| "replace_strip JNull old = Inl AttributeError"
| "replace_strip (JBool b) old = Inl AttributeError"
| "replace_strip (JNum r) old = Inl AttributeError"
| "replace_strip (JList xs) old = Inl AttributeError"
| "replace_strip (JObj kvs) old = Inl AttributeError"

fun py_startswith :: "json \<Rightarrow> string \<Rightarrow> error + bool" where
  "py_startswith (JStr s) p = Inr (startswith s p)"
| "py_startswith JNull p = Inl AttributeError"
| "py_startswith (JBool b) p = Inl AttributeError"
| "py_startswith (JNum r) p = Inl AttributeError"
| "py_startswith (JList xs) p = Inl AttributeError"
| "py_startswith (JObj kvs) p = Inl AttributeError"

text \<open>\<open>d[k]\<close> on a dict.\<close>

definition dict_subscript :: "(string \<times> json) list \<Rightarrow> string \<Rightarrow> error + json" where
  "dict_subscript kvs k = (case map_of kvs k of Some v \<Rightarrow> Inr v | None \<Rightarrow> Inl KeyError)"

text \<open>A value used as a dict key: a list or a dict is unhashable, and \<open>True\<close>, \<open>False\<close> are
  the keys 1 and 0.\<close>

fun dict_key :: "json \<Rightarrow> error + json" where
  "dict_key (JList xs) = Inl TypeError"
| "dict_key (JObj kvs) = Inl TypeError"
| "dict_key (JBool b) = Inr (JNum (if b then 1 else 0))"
| "dict_key JNull = Inr JNull"
| "dict_key (JNum r) = Inr (JNum r)"
| "dict_key (JStr s) = Inr (JStr s)"

text \<open>\<open>for x in v\<close>: the elements of a list, the keys of a dict, the characters of a string.\<close>

fun py_iter :: "json \<Rightarrow> error + json list" where
  "py_iter (JList xs) = Inr xs"
| "py_iter (JObj kvs) = Inr (map (\<lambda>kv. JStr (fst kv)) kvs)"
| "py_iter (JStr s) = Inr (map (\<lambda>c. JStr [c]) s)"
| "py_iter JNull = Inl TypeError"
| "py_iter (JBool b) = Inl TypeError"
| "py_iter (JNum r) = Inl TypeError"

text \<open>A number for arithmetic: \<open>True\<close> and \<open>False\<close> are 1 and 0.\<close>

fun as_number :: "json \<Rightarrow> rat option" where
  "as_number (JNum r) = Some r"
| "as_number (JBool b) = Some (if b then 1 else 0)"
| "as_number JNull = None"
| "as_number (JStr s) = None"
| "as_number (JList xs) = None"
| "as_number (JObj kvs) = None"

subsection \<open>Floats\<close>

text \<open>
  A Python float is an IEEE 754 double, and a double is modelled by the rational it
  holds. An operation on floats gives the double nearest to its exact result, a tie going
  to the one with the even mantissa: \<open>to_double\<close>, with 53 bits of mantissa. The range of
  the exponent is not modelled: no overflow to infinity, no subnormal numbers.
\<close>

definition round_half_even :: "rat \<Rightarrow> int" where
  "round_half_even y =
     (let f = \<lfloor>y\<rfloor>; d = y - of_int f
      in if d < 1 / 2 then f else if 1 / 2 < d then f + 1
         else if even f then f else f + 1)"

text \<open>The exponent \<open>e\<close> of a positive number \<open>x\<close>: \<open>2 ^ e \<le> x < 2 ^ (e + 1)\<close>.\<close>

definition binary_exponent :: "rat \<Rightarrow> int" where
  "binary_exponent x =
     (let e = bitlen (fst (quotient_of x)) - bitlen (snd (quotient_of x))
      in if 2 powi e \<le> x then e else e - 1)"

definition to_double :: "rat \<Rightarrow> rat" where
  "to_double x =
     (if x = 0 then 0
      else let ulp = 2 powi (binary_exponent \<bar>x\<bar> - 52)
           in of_int (round_half_even (x / ulp)) * ulp)"

text \<open>The number a \<open>JNum\<close> stands for: a whole value is itself (an int is exact, and
  below \<open>2 ^ 53\<close> it is converted exactly where it meets a float), any other value is a
  double.\<close>

definition decoded :: "rat \<Rightarrow> rat" where
  "decoded x = (if of_int \<lfloor>x\<rfloor> = x then x else to_double x)"

text \<open>
  \<open>round(x, 2)\<close> on a float \<open>x\<close>: CPython prints the exact value of \<open>x\<close> with two decimals,
  correctly rounded with ties to even (\<open>round2\<close>), and reads the decimal back as a double.
  On an int \<open>round(x, 2)\<close> is \<open>x\<close>.
\<close>

definition round2 :: "rat \<Rightarrow> rat" where
  "round2 x = of_int (round_half_even (x * 100)) / 100"

definition float_round2 :: "rat \<Rightarrow> rat" where
  "float_round2 x = to_double (round2 x)"

definition py_round2 :: "json \<Rightarrow> error + json" where
  "py_round2 v =
     (case as_number v of
        None \<Rightarrow> Inl TypeError
      | Some x \<Rightarrow> Inr (JNum (if of_int \<lfloor>x\<rfloor> = x then x else float_round2 (decoded x))))"

text \<open>\<open>a / b\<close>: the float nearest to the quotient.\<close>

definition py_truediv :: "json \<Rightarrow> json \<Rightarrow> error + rat" where
  "py_truediv a b =
     (case (as_number a, as_number b) of
        (Some x, Some y) \<Rightarrow>
          if y = 0 then Inl ZeroDivisionError else Inr (to_double (decoded x / decoded y))
      | _ \<Rightarrow> Inl TypeError)"

section \<open>Fetching a scorecard\<close>

text \<open>
  The two HTTP calls of \<open>ScorecardAPICall\<close> are the environment: \<open>nv\<close> and \<open>rv\<close> are what
  \<open>nv_api_call()\<close> and \<open>results_vault_api_call()\<close> give when they are called, an exception
  (\<open>raise_for_status\<close>, a body that is not JSON) or the decoded body. A fetch returns the
  calls it made, in order, with its result.
\<close>

datatype api_call = Nv_api_call | Results_vault_api_call

text \<open>main.py, lines 42 to 45: the checks on the primary response.\<close>

definition validate_nv :: "json \<Rightarrow> error + json" where
  "validate_nv data =
     (if \<not> truthy data then Inl ValueError
      else bindE (py_in ''Match'' data) (\<lambda>has_match.
        if \<not> has_match then Inl ValueError
        else bindE (py_get data ''Innings'' JNull) (\<lambda>innings.
          if \<not> truthy innings then Inl ValueError else Inr data)))"

text \<open>main.py, lines 49 and 50: the check on the fallback response.\<close>

definition validate_rv :: "json \<Rightarrow> error + json" where
  "validate_rv data =
     (if \<not> truthy data then Inl ValueError
      else bindE (py_in ''MatchTeams'' data) (\<lambda>has_teams.
        if \<not> has_teams then Inl ValueError else Inr data))"

text \<open>main.py, lines 40 to 53: the body of the loop up to \<open>process_data\<close>. \<open>Inl\<close> is the
  \<open>continue\<close> of line 53: the match is skipped.\<close>

definition fetch_match :: "error + json \<Rightarrow> error + json \<Rightarrow> api_call list \<times> (error + json)" where
  "fetch_match nv rv =
     (case bindE nv validate_nv of
        Inr data \<Rightarrow> ([Nv_api_call], Inr data)
      | Inl _ \<Rightarrow> ([Nv_api_call, Results_vault_api_call], bindE rv validate_rv))"

text \<open>\<open>ScorecardAPICall.get_scorecard\<close>: the fallback is taken when the primary call raises,
  and neither body is looked at.\<close>

definition get_scorecard :: "error + json \<Rightarrow> error + json \<Rightarrow> api_call list \<times> (error + json)" where
  "get_scorecard nv rv =
     (case nv of
        Inr data \<Rightarrow> ([Nv_api_call], Inr data)
      | Inl _ \<Rightarrow> ([Nv_api_call, Results_vault_api_call], rv))"

section \<open>Normalising a scorecard\<close>

text \<open>
  A record is the dict literal the parser appends: column names with their values, in the
  order of the literal. \<open>pd.DataFrame(records)\<close> is the list of the records.
  Both parsers fill two lists, \<open>batting\<close> and \<open>bowling\<close>; a loop is \<open>for_each\<close>, which
  gathers what each round appends to either list, in order, and stops at the first
  exception.
\<close>

type_synonym row = "(string \<times> json) list"

type_synonym frame = "row list"

fun for_each :: "('a \<Rightarrow> error + row list \<times> row list) \<Rightarrow> 'a list \<Rightarrow> error + row list \<times> row list" where
  "for_each body [] = Inr ([], [])"
| "for_each body (x # xs) =
     bindE (body x) (\<lambda>(b1, w1).
     bindE (for_each body xs) (\<lambda>(b2, w2). Inr (b1 @ b2, w1 @ w2)))"

fun mapE :: "('a \<Rightarrow> error + 'b) \<Rightarrow> 'a list \<Rightarrow> error + 'b list" where
  "mapE f [] = Inr []"
| "mapE f (x # xs) = bindE (f x) (\<lambda>y. bindE (mapE f xs) (\<lambda>ys. Inr (y # ys)))"

fun fold_each :: "('a \<Rightarrow> 's \<Rightarrow> error + 's) \<Rightarrow> 'a list \<Rightarrow> 's \<Rightarrow> error + 's" where
  "fold_each body [] s = Inr s"
| "fold_each body (x # xs) s = bindE (body x s) (\<lambda>s'. fold_each body xs s')"

subsection \<open>Parser A: \<open>nv_process_data\<close>\<close>

text \<open>scorecard_api.py, lines 157 to 169.\<close>

definition nv_batting_record :: "string \<Rightarrow> json \<Rightarrow> json \<Rightarrow> error + row" where
  "nv_batting_record team_number opposition batsman =
     bindE (as_dict batsman) (\<lambda>b.
     bindE (py_round2 (dict_get b ''Runs'' (JNum 0))) (\<lambda>runs.
       Inr [(''PlayerTeamName'', JStr team_number),
            (''OppositionTeamName'', opposition),
            (''PlayerName'', dict_get b ''PlayerName'' JNull),
            (''Runs'', runs),
            (''Balls'', dict_get b ''Balls'' JNull),
            (''Minutes'', dict_get b ''Minutes'' JNull),
            (''Fours'', dict_get b ''Fours'' JNull),
            (''Sixes'', dict_get b ''Sixes'' JNull),
            (''StrikeRate'', dict_get b ''StrikeRate'' JNull),
            (''HowOut'', dict_get b ''HowOut'' JNull),
            (''IsDismissed'', dict_get b ''IsDismissed'' JNull)]))"

text \<open>scorecard_api.py, lines 172 to 186.\<close>

definition nv_bowling_record :: "string \<Rightarrow> json \<Rightarrow> json \<Rightarrow> error + row" where
  "nv_bowling_record team_number opposition bowler =
     bindE (as_dict bowler) (\<lambda>b.
       Inr [(''PlayerTeamName'', JStr team_number),
            (''OppositionTeamName'', opposition),
            (''PlayerName'', dict_get b ''PlayerName'' JNull),
            (''Overs'', dict_get b ''Overs'' JNull),
            (''Maidens'', dict_get b ''Maidens'' JNull),
            (''Runs'', dict_get b ''Runs'' JNull),
            (''Wickets'', dict_get b ''Wickets'' JNull),
            (''Economy'', dict_get b ''Economy'' JNull),
            (''Dots'', dict_get b ''Dots'' JNull),
            (''Fours'', dict_get b ''Fours'' JNull),
            (''Sixes'', dict_get b ''Sixes'' JNull),
            (''NoBalls'', dict_get b ''NoBalls'' JNull),
            (''Wides'', dict_get b ''Wides'' JNull)])"

text \<open>scorecard_api.py, lines 155 to 186: one round of the loop over the innings.\<close>

definition nv_innings :: "string \<Rightarrow> string \<Rightarrow> json \<Rightarrow> json \<Rightarrow> error + row list \<times> row list" where
  "nv_innings team_name team_number opposition innings =
     bindE (py_get innings ''BattingTeamName'' JNull) (\<lambda>batting_team.
       if batting_team = JStr (team_name @ '' '' @ team_number)
       then bindE (py_get innings ''BattingCard'' (JList [])) (\<lambda>card.
            bindE (py_iter card) (\<lambda>entries.
            bindE (mapE (nv_batting_record team_number opposition) entries) (\<lambda>rows.
              Inr (rows, []))))
       else bindE (py_get innings ''BowlingCard'' (JList [])) (\<lambda>card.
            bindE (py_iter card) (\<lambda>entries.
            bindE (mapE (nv_bowling_record team_number opposition) entries) (\<lambda>rows.
              Inr ([], rows)))))"

text \<open>scorecard_api.py, lines 143 to 152: the team-number suffix and the opposition.\<close>

definition nv_teams :: "string \<Rightarrow> json \<Rightarrow> error + string \<times> json" where
  "nv_teams team_name data =
     bindE (py_get data ''Match'' (JObj [])) (\<lambda>match.
     bindE (py_get match ''Team1Name'' (JStr [])) (\<lambda>team1.
     bindE (py_get match ''Team2Name'' (JStr [])) (\<lambda>team2.
     bindE (py_in team_name team1) (\<lambda>club_is_team1.
       if club_is_team1
       then bindE (replace_strip team1 team_name) (\<lambda>team_number. Inr (team_number, team2))
       else bindE (replace_strip team2 team_name) (\<lambda>team_number. Inr (team_number, team1))))))"

definition nv_process_data :: "string \<Rightarrow> json \<Rightarrow> error + frame \<times> frame" where
  "nv_process_data team_name data =
     bindE (nv_teams team_name data) (\<lambda>(team_number, opposition).
     bindE (py_get data ''Innings'' (JList [])) (\<lambda>innings.
     bindE (py_iter innings) (\<lambda>innings.
       for_each (nv_innings team_name team_number opposition) innings)))"

subsection \<open>Parser B: \<open>results_vault_process_data\<close>\<close>

text \<open>
  \<open>player_id_to_full_name\<close> is a local variable of the function: \<open>None\<close> while nothing has
  been assigned to it, and reading it then raises UnboundLocalError, a NameError. The
  dict is an association list whose first entry for a key is the latest.
\<close>

type_synonym name_map = "(json \<times> json) list"

text \<open>scorecard_api.py, lines 225 and 226. In \<open>d[k] = v\<close> Python evaluates \<open>v\<close>, then \<open>d\<close>,
  then \<open>k\<close>.\<close>

definition rv_member :: "json \<Rightarrow> name_map option \<Rightarrow> error + name_map option" where
  "rv_member player player_id_to_full_name =
     bindE (as_dict player) (\<lambda>p.
       let full_player_name = dict_get p ''player_name2'' JNull in
       (case player_id_to_full_name of
          None \<Rightarrow> Inl NameError
        | Some names \<Rightarrow>
            bindE (dict_subscript p ''player_id'') (\<lambda>player_id.
            bindE (dict_key player_id) (\<lambda>k.
              Inr (Some ((k, full_player_name) # names))))))"

text \<open>scorecard_api.py, lines 223 to 226: one round of the first loop over the teams.\<close>

definition rv_team_members :: "json \<Rightarrow> name_map option \<Rightarrow> error + name_map option" where
  "rv_team_members team player_id_to_full_name =
     bindE (py_get team ''TeamMembers'' (JList [])) (\<lambda>members.
     bindE (py_iter members) (\<lambda>members.
       fold_each rv_member members player_id_to_full_name))"

text \<open>scorecard_api.py, lines 239 to 251.\<close>

definition rv_batting_record :: "string \<Rightarrow> json \<Rightarrow> json \<Rightarrow> (string \<times> json) list \<Rightarrow> row" where
  "rv_batting_record team_number opposition full_player_name p =
     [(''PlayerTeamName'', JStr team_number),
      (''OppositionTeamName'', opposition),
      (''PlayerName'', full_player_name),
      (''Runs'', dict_get p ''runs'' JNull),
      (''Balls'', dict_get p ''balls'' JNull),
      (''Minutes'', dict_get p ''minutes'' JNull),
      (''Fours'', dict_get p ''fours'' JNull),
      (''Sixes'', dict_get p ''sixes'' JNull),
      (''StrikeRate'', dict_get p ''strike_rate'' JNull),
      (''HowOut'', dict_get p ''dismissal_text'' JNull),
      (''IsDismissed'',
         JBool (dict_get p ''dismissal_text'' JNull
                \<notin> set [JNull, JStr [], JStr ''dnb'', JStr ''no'']))]"

text \<open>scorecard_api.py, lines 253 to 270.\<close>

definition rv_bowling_record ::
  "string \<Rightarrow> json \<Rightarrow> json \<Rightarrow> (string \<times> json) list \<Rightarrow> error + row" where
  "rv_bowling_record team_number opposition full_player_name p =
     (let overs = dict_get p ''overs'' (JNum 0);
          runs = dict_get p ''runs'' (JNum 0)
      in bindE (if truthy overs
                then bindE (py_truediv runs overs) (\<lambda>q. Inr (JNum (float_round2 q)))
                else Inr JNull) (\<lambda>economy.
           Inr [(''PlayerTeamName'', JStr team_number),
                (''OppositionTeamName'', opposition),
                (''PlayerName'', full_player_name),
                (''Overs'', overs),
                (''Maidens'', dict_get p ''maidens'' JNull),
                (''Runs'', runs),
                (''Wickets'', dict_get p ''wickets'' JNull),
                (''Economy'', economy),
                (''Dots'', dict_get p ''dot_balls'' JNull),
                (''Fours'', JNull),
                (''Sixes'', JNull),
                (''NoBalls'', dict_get p ''no_balls'' JNull),
                (''Wides'', dict_get p ''wides'' JNull)]))"

text \<open>scorecard_api.py, lines 236 to 270: one performance entry.\<close>

definition rv_perf ::
  "string \<Rightarrow> json \<Rightarrow> name_map option \<Rightarrow> bool \<Rightarrow> json \<Rightarrow> error + row list \<times> row list" where
  "rv_perf team_number opposition player_id_to_full_name team_is_lightcliffe perf =
     bindE (as_dict perf) (\<lambda>p.
       let player_id = dict_get p ''player_id'' JNull in
       (case player_id_to_full_name of
          None \<Rightarrow> Inl NameError
        | Some names \<Rightarrow>
            bindE (dict_key player_id) (\<lambda>k.
              let full_player_name = (case map_of names k of
                                        Some n \<Rightarrow> n
                                      | None \<Rightarrow> dict_get p ''player_name'' JNull) in
              bindE (py_startswith (dict_get p ''__type'' (JStr [])) ''Batting'') (\<lambda>is_batting.
                if is_batting \<and> team_is_lightcliffe
                then Inr ([rv_batting_record team_number opposition full_player_name p], [])
                else
                  bindE (py_startswith (dict_get p ''__type'' (JStr [])) ''Bowling'') (\<lambda>is_bowling.
                    if is_bowling \<and> \<not> team_is_lightcliffe
                    then bindE (rv_bowling_record team_number opposition full_player_name p)
                           (\<lambda>r. Inr ([], [r]))
                    else Inr ([], []))))))"

text \<open>scorecard_api.py, lines 234 and 235.\<close>

definition rv_innings ::
  "string \<Rightarrow> json \<Rightarrow> name_map option \<Rightarrow> bool \<Rightarrow> json \<Rightarrow> error + row list \<times> row list" where
  "rv_innings team_number opposition player_id_to_full_name team_is_lightcliffe innings =
     bindE (py_get innings ''PlayerPerfs'' (JList [])) (\<lambda>perfs.
     bindE (py_iter perfs) (\<lambda>perfs.
       for_each (rv_perf team_number opposition player_id_to_full_name team_is_lightcliffe)
         perfs))"

text \<open>scorecard_api.py, lines 230 to 234: one round of the second loop over the teams.\<close>

definition rv_team ::
  "string \<Rightarrow> string \<Rightarrow> json \<Rightarrow> name_map option \<Rightarrow> json \<Rightarrow> error + row list \<times> row list" where
  "rv_team team_name team_number opposition player_id_to_full_name team =
     bindE (py_get team ''team_name'' (JStr [])) (\<lambda>label.
     bindE (py_in team_name label) (\<lambda>team_is_lightcliffe.
     bindE (py_get team ''Innings'' (JList [])) (\<lambda>innings.
     bindE (py_iter innings) (\<lambda>innings.
       for_each (rv_innings team_number opposition player_id_to_full_name team_is_lightcliffe)
         innings))))"

text \<open>scorecard_api.py, lines 207 to 272. The assignment \<open>player_id_to_full_name = {}\<close> of
  line 221 is indented into the \<open>else\<close> branch of line 215.\<close>

definition results_vault_process_data :: "string \<Rightarrow> json \<Rightarrow> error + frame \<times> frame" where
  "results_vault_process_data team_name data =
     bindE (py_get data ''home_name'' (JStr [])) (\<lambda>team1.
     bindE (py_get data ''away_name'' (JStr [])) (\<lambda>team2.
     bindE (py_in team_name team1) (\<lambda>club_is_home.
     bindE (if club_is_home
            then bindE (replace_strip team1 team_name) (\<lambda>n. Inr (n, team2, None))
            else bindE (replace_strip team2 team_name) (\<lambda>n. Inr (n, team1, Some [])))
       (\<lambda>(team_number, opposition, unbound_or_empty).
     bindE (py_get data ''MatchTeams'' (JList [])) (\<lambda>teams.
     bindE (py_iter teams) (\<lambda>teams.
     bindE (fold_each rv_team_members teams unbound_or_empty) (\<lambda>player_id_to_full_name.
       for_each (rv_team team_name team_number opposition player_id_to_full_name) teams)))))))"

subsection \<open>\<open>process_data\<close>\<close>

definition process_data :: "string \<Rightarrow> json \<Rightarrow> error + frame \<times> frame" where
  "process_data team_name data =
     bindE (py_in ''Match'' data) (\<lambda>is_nv.
       if is_nv then nv_process_data team_name data
       else bindE (py_in ''MatchTeams'' data) (\<lambda>is_rv.
         if is_rv then results_vault_process_data team_name data
         else Inr ([], [])))"

section \<open>Selecting the top performers\<close>

text \<open>
  \<open>SponsorDataProcessor\<close> works on the two season tables. A table is the list of its rows,
  each row listing the same columns; a column the table does not have raises KeyError.
  The roster \<open>result\<close> is the list of the (Player Name, Sponsor Name) pairs.
\<close>

definition has_column :: "string \<Rightarrow> frame \<Rightarrow> bool" where
  "has_column c df = (\<exists>r \<in> set df. c \<in> set (map fst r))"

definition cell :: "string \<Rightarrow> row \<Rightarrow> json" where
  "cell c r = dict_get r c JNull"

definition set_cell :: "string \<Rightarrow> (json \<Rightarrow> json) \<Rightarrow> row \<Rightarrow> row" where
  "set_cell c f r = map (\<lambda>(k, x). (k, if k = c then f x else x)) r"

text \<open>data_processing.py, line 18: \<open>dropna()\<close> on the two columns of the sheet; a sheet that
  cannot be read ends the program.\<close>

definition load_sponsor_data :: "error + (json \<times> json) list \<Rightarrow> error + (json \<times> json) list" where
  "load_sponsor_data csv =
     (case csv of
        Inl e \<Rightarrow> Inl SystemExit
      | Inr sheet \<Rightarrow> Inr (filter (\<lambda>(p, s). p \<noteq> JNull \<and> s \<noteq> JNull) sheet))"

text \<open>The regular expression \<open>[*\<dagger>]\<close> replaced by nothing: the asterisk, and the dagger
  U+2020, three bytes in UTF-8.\<close>

definition dagger :: string where
  "dagger = [CHR 0xE2, CHR 0x80, CHR 0xA0]"

fun strip_markers :: "string \<Rightarrow> string" where
  "strip_markers [] = []"
| "strip_markers (a # s) =
     (if a = CHR ''*'' then strip_markers s
      else if startswith (a # s) dagger then strip_markers (drop 2 s)
      else a # strip_markers s)"

text \<open>data_processing.py, lines 21 to 24, on one cell: \<open>.str.replace\<close> leaves NaN where
  the cell is not a string, and \<open>.replace\<close> swaps the one cell that is the alias.\<close>

definition normalise_name :: "json \<Rightarrow> json" where
  "normalise_name v =
     (let stripped = (case v of JStr s \<Rightarrow> JStr (strip_markers s) | _ \<Rightarrow> JNull)
      in if stripped = JStr ''T Stead'' then JStr ''Ted Stead'' else stripped)"

text \<open>
  \<open>sort_values([c1, c2], ascending=[False, True])\<close> is a stable sort on the two columns,
  the first descending and the second ascending, with the missing values of each column
  last. pandas orders the values of a column as a sorted categorical: numbers by value
  (\<open>True\<close> and \<open>False\<close> are 1 and 0), strings by code point, and the numbers before the
  strings where a column holds both. A cell that is a list or a dict cannot be ordered
  (it is unhashable); such a cell is put with the missing values here, and nothing is
  stated about a table that has one in a ranking column.
\<close>

definition sort_cell :: "json \<Rightarrow> (rat + string) option" where
  "sort_cell v =
     (case v of
        JStr s \<Rightarrow> Some (Inr s)
      | _ \<Rightarrow> map_option (\<lambda>x. Inl (decoded x)) (as_number v))"

text \<open>The ascending order of the values of a column, as a key: with the missing values
  last, and with the missing values first.\<close>

definition missing_last :: "json \<Rightarrow> nat \<times> rat \<times> string" where
  "missing_last v =
     (case sort_cell v of
        Some (Inl x) \<Rightarrow> (0, x, [])
      | Some (Inr s) \<Rightarrow> (1, 0, s)
      | None \<Rightarrow> (2, 0, []))"

definition missing_first :: "json \<Rightarrow> nat \<times> rat \<times> string" where
  "missing_first v =
     (case sort_cell v of
        None \<Rightarrow> (0, 0, [])
      | Some (Inl x) \<Rightarrow> (1, x, [])
      | Some (Inr s) \<Rightarrow> (2, 0, s))"

text \<open>The stable sort on the pair of columns is the stable sort by the second column
  followed by the stable sort by the first, and a descending stable sort is the reverse
  of the ascending stable sort of the reversed table.\<close>

definition sort_values :: "string \<Rightarrow> string \<Rightarrow> frame \<Rightarrow> frame" where
  "sort_values c1 c2 df =
     rev (sort_key (\<lambda>r. missing_first (cell c1 r))
            (rev (sort_key (\<lambda>r. missing_last (cell c2 r)) df)))"

text \<open>data_processing.py, lines 26 to 28 and 34 to 36: the rows kept, ranked, and the
  first six of them.\<close>

definition top_6 :: "string \<Rightarrow> string \<Rightarrow> frame \<Rightarrow> frame" where
  "top_6 c1 c2 df =
     take 6 (sort_values c1 c2
       (filter (\<lambda>r. cell ''PlayerName'' r \<notin> set [JStr ''Extras'', JStr ''Total'']) df))"

text \<open>\<open>merge(result, left_on="PlayerName", right_on="Player Name", how="left")\<close>: the rows
  of the left table in their order, each once for every roster row of that name, and
  once with missing values when there is none.\<close>

definition merge_left :: "frame \<Rightarrow> (json \<times> json) list \<Rightarrow> frame" where
  "merge_left df result =
     concat (map (\<lambda>r.
       (case filter (\<lambda>(p, s). p = cell ''PlayerName'' r) result of
          [] \<Rightarrow> [r @ [(''Player Name'', JNull), (''Sponsor Name'', JNull)]]
        | m # ms \<Rightarrow> map (\<lambda>(p, s). r @ [(''Player Name'', p), (''Sponsor Name'', s)]) (m # ms)))
       df)"

definition drop_column :: "string \<Rightarrow> frame \<Rightarrow> frame" where
  "drop_column c df = map (filter (\<lambda>(k, x). k \<noteq> c)) df"

text \<open>\<open>df.fillna(v)\<close> and \<open>df[c] = df[c].fillna(v)\<close>\<close>

definition fillna :: "json \<Rightarrow> frame \<Rightarrow> frame" where
  "fillna v df = map (map (\<lambda>(k, x). (k, if x = JNull then v else x))) df"

definition fillna_column :: "string \<Rightarrow> json \<Rightarrow> frame \<Rightarrow> frame" where
  "fillna_column c v df = map (map (\<lambda>(k, x). (k, if k = c \<and> x = JNull then v else x))) df"

text \<open>data_processing.py, lines 20 to 43. The rows are filtered before they are sorted and
  an empty selection keeps its columns, so the KeyError of a column that the table does
  not have (lines 21, 22, 28 and 36) is decided on the table as it comes in.\<close>

definition data_wrangling :: "frame \<Rightarrow> frame \<Rightarrow> (json \<times> json) list \<Rightarrow> error + frame \<times> frame" where
  "data_wrangling batting_df bowling_df result =
     (if \<not> has_column ''PlayerName'' batting_df \<or> \<not> has_column ''PlayerName'' bowling_df
         \<or> \<not> has_column ''Runs'' batting_df \<or> \<not> has_column ''Balls'' batting_df
         \<or> \<not> has_column ''Wickets'' bowling_df \<or> \<not> has_column ''Runs'' bowling_df
      then Inl KeyError
      else
        let batting_df = map (set_cell ''PlayerName'' normalise_name) batting_df;
            bowling_df = map (set_cell ''PlayerName'' normalise_name) bowling_df;
            top_6_batters = top_6 ''Runs'' ''Balls'' batting_df;
            top_6_batters = fillna (JStr ''Available To Sponsor'')
                              (drop_column ''Player Name'' (merge_left top_6_batters result));
            top_6_bowlers = top_6 ''Wickets'' ''Runs'' bowling_df;
            top_6_bowlers = drop_column ''Player Name'' (merge_left top_6_bowlers result);
            top_6_bowlers = fillna_column ''Sponsor Name'' (JStr ''Available to Sponsor'')
                              top_6_bowlers
        in Inr (top_6_batters, top_6_bowlers))"

section \<open>Placing the entries on the image\<close>

text \<open>image_generation.py, lines 95 to 99 and 184 to 188: the product of ints is exact,
  the quotient and the sum are floats, and \<open>int\<close> truncates towards zero.\<close>

definition py_int :: "rat \<Rightarrow> int" where
  "py_int x = (if 0 \<le> x then \<lfloor>x\<rfloor> else \<lceil>x\<rceil>)"

definition start_y :: rat where
  "start_y = 374"

definition end_y :: rat where
  "end_y = 1289"

definition y_position :: "nat \<Rightarrow> nat \<Rightarrow> error + int" where
  "y_position num_entries i =
     bindE (py_truediv (JNum (of_nat i * (end_y - start_y))) (JNum (of_nat num_entries - 1)))
       (\<lambda>q. Inr (py_int (to_double (start_y + q))))"

definition y_positions :: "nat \<Rightarrow> error + int list" where
  "y_positions num_entries = mapE (y_position num_entries) [0..<num_entries]"

section \<open>The weekly run\<close>

text \<open>
  What \<open>main\<close> reads from outside: the match list, the header probed on the first match's
  page, the two scorecard calls for a match, the sponsor sheet.
\<close>

record environment =
  get_match_ids :: "error + string list"
  get_ias_api_header_from_match_page :: "string \<Rightarrow> error + json"
  nv_api_call :: "string \<Rightarrow> error + json"
  results_vault_api_call :: "string \<Rightarrow> json \<Rightarrow> error + json"
  sponsor_sheet :: "error + (json \<times> json) list"

text \<open>main.py, lines 38 to 57.\<close>

fun match_loop ::
  "environment \<Rightarrow> string \<Rightarrow> json \<Rightarrow> string list \<Rightarrow> frame list \<times> frame list
     \<Rightarrow> error + frame list \<times> frame list" where
  "match_loop env team_name api_header [] dfs = Inr dfs"
| "match_loop env team_name api_header (match_number # rest) (all_batting_dfs, all_bowling_dfs) =
     (case snd (fetch_match (nv_api_call env match_number)
                  (results_vault_api_call env match_number api_header)) of
        Inl e \<Rightarrow> match_loop env team_name api_header rest (all_batting_dfs, all_bowling_dfs)
      | Inr data \<Rightarrow>
          bindE (process_data team_name data) (\<lambda>(batting_df, bowling_df).
            match_loop env team_name api_header rest
              (all_batting_dfs @ [batting_df], all_bowling_dfs @ [bowling_df])))"

text \<open>main.py, lines 28 to 68: up to the tables handed to the image generator. A table
  that was never assigned is \<open>None\<close>, and line 63 reads \<open>batting_table\<close>.\<close>

definition main :: "environment \<Rightarrow> string \<Rightarrow> error + frame \<times> frame" where
  "main env team_name =
     bindE (get_match_ids env) (\<lambda>match_numbers.
     bindE (case match_numbers of
              [] \<Rightarrow> Inl IndexError
            | first # _ \<Rightarrow> get_ias_api_header_from_match_page env first) (\<lambda>api_header.
     bindE (match_loop env team_name api_header match_numbers ([], []))
       (\<lambda>(all_batting_dfs, all_bowling_dfs).
         let batting_table = (if all_batting_dfs \<noteq> [] then Some (concat all_batting_dfs) else None);
             bowling_table = (if all_bowling_dfs \<noteq> [] then Some (concat all_bowling_dfs) else None)
         in (case (batting_table, bowling_table) of
               (Some batting, Some bowling) \<Rightarrow>
                 bindE (load_sponsor_data (sponsor_sheet env)) (\<lambda>result.
                   data_wrangling batting bowling result)
             | _ \<Rightarrow> Inl NameError))))"

section \<open>What the specification asks of a response\<close>

text \<open>The primary response as the specification accepts it: a \<open>Match\<close> key and a non-empty
  \<open>Innings\<close>.\<close>

definition has_match_and_innings :: "error + json \<Rightarrow> bool" where
  "has_match_and_innings nv =
     (case nv of
        Inr (JObj kvs) \<Rightarrow> ''Match'' \<in> set (map fst kvs) \<and> truthy (dict_get kvs ''Innings'' JNull)
      | _ \<Rightarrow> False)"

text \<open>
  The innings of a payload, the entries of one of its cards, and the test of line 155
  that makes an innings the club's batting innings.
\<close>

definition innings_of :: "json \<Rightarrow> json list" where
  "innings_of data =
     (case bindE (py_get data ''Innings'' (JList [])) py_iter of Inr xs \<Rightarrow> xs | Inl e \<Rightarrow> [])"

definition card :: "string \<Rightarrow> json \<Rightarrow> json list" where
  "card c innings =
     (case bindE (py_get innings c (JList [])) py_iter of Inr xs \<Rightarrow> xs | Inl e \<Rightarrow> [])"

definition club_batting :: "string \<Rightarrow> string \<Rightarrow> json \<Rightarrow> bool" where
  "club_batting team_name team_number innings =
     (py_get innings ''BattingTeamName'' JNull = Inr (JStr (team_name @ '' '' @ team_number)))"

text \<open>
  The shape of a primary payload (section 6 of the specification): an object with a
  \<open>Match\<close> of two team names and \<open>Innings\<close>, a list of innings, each an object with a
  batting card and a bowling card, lists of objects; the runs of a batter are a number.
\<close>

fun is_str :: "json \<Rightarrow> bool" where
  "is_str (JStr s) = True"
| "is_str v = False"

fun dict_with :: "((string \<times> json) list \<Rightarrow> bool) \<Rightarrow> json \<Rightarrow> bool" where
  "dict_with P (JObj kvs) = P kvs"
| "dict_with P v = False"

fun list_with :: "(json \<Rightarrow> bool) \<Rightarrow> json \<Rightarrow> bool" where
  "list_with P (JList xs) = list_all P xs"
| "list_with P v = False"

definition batsman_ok :: "json \<Rightarrow> bool" where
  "batsman_ok = dict_with (\<lambda>b. as_number (dict_get b ''Runs'' (JNum 0)) \<noteq> None)"

definition innings_ok :: "json \<Rightarrow> bool" where
  "innings_ok =
     dict_with (\<lambda>i. list_with batsman_ok (dict_get i ''BattingCard'' (JList []))
                   \<and> list_with (dict_with (\<lambda>b. True)) (dict_get i ''BowlingCard'' (JList [])))"

definition shape_A :: "json \<Rightarrow> bool" where
  "shape_A =
     dict_with (\<lambda>d. ''Match'' \<in> set (map fst d)
                   \<and> dict_with (\<lambda>m. is_str (dict_get m ''Team1Name'' (JStr []))
                                    \<and> is_str (dict_get m ''Team2Name'' (JStr [])))
                       (dict_get d ''Match'' (JObj []))
                   \<and> list_with innings_ok (dict_get d ''Innings'' (JList [])))"

text \<open>
  What claim C6 says of one bowling record. The economy is the float of a number of
  hundredths \<open>k / 100\<close>, the hundredth nearest to the float quotient \<open>q\<close> of the runs by the
  overs, the even one of two that are equally near; and a float is within a relative
  \<open>2 ^ - 53\<close> of what it rounds.
\<close>

definition rounded_quotient :: "rat \<Rightarrow> rat \<Rightarrow> rat \<Rightarrow> bool" where
  "rounded_quotient runs overs economy =
     (\<exists>q k. economy = to_double (of_int k / 100)
        \<and> of_int k / 100 = round2 q
        \<and> \<bar>of_int k / 100 - q\<bar> \<le> 1 / 200
        \<and> (\<bar>of_int k / 100 - q\<bar> = 1 / 200 \<longrightarrow> even k)
        \<and> \<bar>economy - of_int k / 100\<bar> \<le> \<bar>of_int k / 100\<bar> / 2 ^ 53
        \<and> q = to_double (decoded runs / decoded overs)
        \<and> \<bar>q - decoded runs / decoded overs\<bar> \<le> \<bar>decoded runs / decoded overs\<bar> / 2 ^ 53)"

definition bowling_figures :: "row \<Rightarrow> bool" where
  "bowling_figures r =
     (map_of r ''Fours'' = Some JNull \<and> map_of r ''Sixes'' = Some JNull
      \<and> (\<not> truthy (cell ''Overs'' r) \<longrightarrow> map_of r ''Economy'' = Some JNull)
      \<and> (\<forall>overs runs. as_number (cell ''Overs'' r) = Some overs \<and> overs \<noteq> 0
            \<and> as_number (cell ''Runs'' r) = Some runs
            \<longrightarrow> (\<exists>economy. map_of r ''Economy'' = Some (JNum economy)
                   \<and> rounded_quotient runs overs economy)))"

section \<open>The season tables and the ranking, as the claims speak of them\<close>

text \<open>
  The columns of the two tables, as both parsers write them, and a season table: at least
  one row, every row with these columns. \<open>normalised\<close> is the table after lines 21 to 24,
  \<open>qualifying\<close> its rows that are not \<open>Extras\<close> or \<open>Total\<close>, and the two selections are
  \<open>top_6_batters\<close> and \<open>top_6_bowlers\<close> before the merge. \<open>ranked_before\<close> is the order
  of the ranking: the first column descending, ties by the second ascending, a missing
  value after every value, and a number below every string.
\<close>

definition batting_columns :: "string list" where
  "batting_columns = [''PlayerTeamName'', ''OppositionTeamName'', ''PlayerName'', ''Runs'',
                      ''Balls'', ''Minutes'', ''Fours'', ''Sixes'', ''StrikeRate'', ''HowOut'',
                      ''IsDismissed'']"

definition bowling_columns :: "string list" where
  "bowling_columns = [''PlayerTeamName'', ''OppositionTeamName'', ''PlayerName'', ''Overs'',
                      ''Maidens'', ''Runs'', ''Wickets'', ''Economy'', ''Dots'', ''Fours'',
                      ''Sixes'', ''NoBalls'', ''Wides'']"

definition season_table :: "string list \<Rightarrow> frame \<Rightarrow> bool" where
  "season_table cols df = (df \<noteq> [] \<and> list_all (\<lambda>r. map fst r = cols) df)"

definition normalised :: "frame \<Rightarrow> frame" where
  "normalised df = map (set_cell ''PlayerName'' normalise_name) df"


definition batting_selection :: "frame \<Rightarrow> frame" where
  "batting_selection df = top_6 ''Runs'' ''Balls'' (normalised df)"

definition bowling_selection :: "frame \<Rightarrow> frame" where
  "bowling_selection df = top_6 ''Wickets'' ''Runs'' (normalised df)"

definition sponsors_of :: "(json \<times> json) list \<Rightarrow> json \<Rightarrow> json list" where
  "sponsors_of result name = map snd (filter (\<lambda>(p, s). p = name) result)"

definition filled :: "json \<Rightarrow> json \<Rightarrow> json" where
  "filled v x = (if x = JNull then v else x)"







text \<open>The merged table, row by row.\<close>

definition sponsor_cells :: "(json \<times> json) list \<Rightarrow> row \<Rightarrow> json list" where
  "sponsor_cells result r =
     (case sponsors_of result (cell ''PlayerName'' r) of [] \<Rightarrow> [JNull] | s # ss \<Rightarrow> s # ss)"

definition merged_row :: "row \<Rightarrow> json \<Rightarrow> row" where
  "merged_row r s = filter (\<lambda>(k, x). k \<noteq> ''Player Name'') r @ [(''Sponsor Name'', s)]"

definition merged_batters :: "frame \<Rightarrow> (json \<times> json) list \<Rightarrow> frame" where
  "merged_batters df result = drop_column ''Player Name'' (merge_left (batting_selection df) result)"

definition merged_bowlers :: "frame \<Rightarrow> (json \<times> json) list \<Rightarrow> frame" where
  "merged_bowlers df result = drop_column ''Player Name'' (merge_left (bowling_selection df) result)"

definition batting_placeholder :: json where
  "batting_placeholder = JStr ''Available To Sponsor''"

definition bowling_placeholder :: json where
  "bowling_placeholder = JStr ''Available to Sponsor''"

section \<open>Example inputs\<close>

definition nv_example :: json where
  "nv_example =
     JObj [(''Match'', JObj [(''Team1Name'', JStr ''Lightcliffe CC 1st XI''),
                             (''Team2Name'', JStr ''Bowling Old Lane CC'')]),
           (''Innings'', JList [
              JObj [(''BattingTeamName'', JStr ''Lightcliffe CC 1st XI''),
                    (''BattingCard'', JList [
                       JObj [(''PlayerName'', JStr ''A Batter''), (''Runs'', JNum 80),
                             (''Balls'', JNum 55)],
                       JObj [(''PlayerName'', JStr ''Extras''), (''Runs'', JNum 12)]]),
                    (''BowlingCard'', JList [
                       JObj [(''PlayerName'', JStr ''X Opponent''), (''Wickets'', JNum 2)]])],
              JObj [(''BattingTeamName'', JStr ''Bowling Old Lane CC''),
                    (''BattingCard'', JList [
                       JObj [(''PlayerName'', JStr ''Y Opponent''), (''Runs'', JNum 5)]]),
                    (''BowlingCard'', JList [
                       JObj [(''PlayerName'', JStr ''B Bowler''), (''Overs'', JNum 4),
                             (''Runs'', JNum 17), (''Wickets'', JNum 3)]])]])]"

definition rv_home_example :: json where
  "rv_home_example =
     JObj [(''home_name'', JStr ''Lightcliffe CC 1st XI''),
           (''away_name'', JStr ''Bowling Old Lane CC''),
           (''MatchTeams'', JList [
              JObj [(''team_name'', JStr ''Lightcliffe CC 1st XI''),
                    (''TeamMembers'', JList [
                       JObj [(''player_id'', JNum 1), (''player_name2'', JStr ''A Batter'')]]),
                    (''Innings'', JList [])]])]"

definition no_matches :: environment where
  "no_matches = \<lparr>get_match_ids = Inr [],
                 get_ias_api_header_from_match_page = (\<lambda>m. Inr JNull),
                 nv_api_call = (\<lambda>m. Inl HTTPError),
                 results_vault_api_call = (\<lambda>m h. Inl HTTPError),
                 sponsor_sheet = Inr []\<rparr>"

definition no_scorecards :: environment where
  "no_scorecards = \<lparr>get_match_ids = Inr [''7126243''],
                    get_ias_api_header_from_match_page = (\<lambda>m. Inr (JStr ''token'')),
                    nv_api_call = (\<lambda>m. Inl HTTPError),
                    results_vault_api_call = (\<lambda>m h. Inl HTTPError),
                    sponsor_sheet = Inr []\<rparr>"

text \<open>The two tables of \<open>nv_example\<close>.\<close>

definition nv_example_batting :: frame where
  "nv_example_batting =
     [[(''PlayerTeamName'', JStr ''1st XI''),
       (''OppositionTeamName'', JStr ''Bowling Old Lane CC''),
       (''PlayerName'', JStr ''A Batter''), (''Runs'', JNum 80),
       (''Balls'', JNum 55), (''Minutes'', JNull), (''Fours'', JNull),
       (''Sixes'', JNull), (''StrikeRate'', JNull), (''HowOut'', JNull),
       (''IsDismissed'', JNull)],
      [(''PlayerTeamName'', JStr ''1st XI''),
       (''OppositionTeamName'', JStr ''Bowling Old Lane CC''),
       (''PlayerName'', JStr ''Extras''), (''Runs'', JNum 12),
       (''Balls'', JNull), (''Minutes'', JNull), (''Fours'', JNull),
       (''Sixes'', JNull), (''StrikeRate'', JNull), (''HowOut'', JNull),
       (''IsDismissed'', JNull)]]"

definition nv_example_bowling :: frame where
  "nv_example_bowling =
     [[(''PlayerTeamName'', JStr ''1st XI''),
       (''OppositionTeamName'', JStr ''Bowling Old Lane CC''),
       (''PlayerName'', JStr ''B Bowler''), (''Overs'', JNum 4),
       (''Maidens'', JNull), (''Runs'', JNum 17), (''Wickets'', JNum 3),
       (''Economy'', JNull), (''Dots'', JNull), (''Fours'', JNull),
       (''Sixes'', JNull), (''NoBalls'', JNull), (''Wides'', JNull)]]"

definition rv_away_example :: json where
  "rv_away_example =
     JObj [(''home_name'', JStr ''Bowling Old Lane CC''),
           (''away_name'', JStr ''Lightcliffe CC 1st XI''),
           (''MatchTeams'', JList [
              JObj [(''team_name'', JStr ''Lightcliffe CC 1st XI''),
                    (''TeamMembers'', JList [
                       JObj [(''player_id'', JNum 1), (''player_name2'', JStr ''A Batter'')]]),
                    (''Innings'', JList [JObj [(''PlayerPerfs'', JList [
                       JObj [(''__type'', JStr ''BattingPerf''), (''player_id'', JNum 1),
                             (''runs'', JNum 30), (''balls'', JNum 21),
                             (''dismissal_text'', JStr ''b Bowler'')]])]])],
              JObj [(''team_name'', JStr ''Bowling Old Lane CC''),
                    (''TeamMembers'', JList [
                       JObj [(''player_id'', JNum 2), (''player_name2'', JStr ''B Bowler'')]]),
                    (''Innings'', JList [JObj [(''PlayerPerfs'', JList [
                       JObj [(''__type'', JStr ''BowlingPerf''), (''player_id'', JNum 2),
                             (''overs'', JNum 4), (''runs'', JNum 17), (''wickets'', JNum 3)],
                       JObj [(''__type'', JStr ''BowlingPerf''), (''player_id'', JNum 3),
                             (''player_name'', JStr ''C Change''), (''overs'', JNum 0),
                             (''runs'', JNum 0)],
                       JObj [(''__type'', JStr ''BowlingPerf''), (''player_id'', JNum 4),
                             (''player_name'', JStr ''D Long''), (''overs'', JNum 40),
                             (''runs'', JNum 43)]])]])]])]"

definition rv_away_batting :: frame where
  "rv_away_batting =
     [[(''PlayerTeamName'', JStr ''1st XI''),
       (''OppositionTeamName'', JStr ''Bowling Old Lane CC''),
       (''PlayerName'', JStr ''A Batter''), (''Runs'', JNum 30),
       (''Balls'', JNum 21), (''Minutes'', JNull), (''Fours'', JNull),
       (''Sixes'', JNull), (''StrikeRate'', JNull),
       (''HowOut'', JStr ''b Bowler''), (''IsDismissed'', JBool True)]]"

definition rv_away_bowling :: frame where
  "rv_away_bowling =
     [[(''PlayerTeamName'', JStr ''1st XI''),
       (''OppositionTeamName'', JStr ''Bowling Old Lane CC''),
       (''PlayerName'', JStr ''B Bowler''), (''Overs'', JNum 4),
       (''Maidens'', JNull), (''Runs'', JNum 17), (''Wickets'', JNum 3),
       (''Economy'', JNum (17 / 4)), (''Dots'', JNull), (''Fours'', JNull),
       (''Sixes'', JNull), (''NoBalls'', JNull), (''Wides'', JNull)],
      [(''PlayerTeamName'', JStr ''1st XI''),
       (''OppositionTeamName'', JStr ''Bowling Old Lane CC''),
       (''PlayerName'', JStr ''C Change''), (''Overs'', JNum 0),
       (''Maidens'', JNull), (''Runs'', JNum 0), (''Wickets'', JNull),
       (''Economy'', JNull), (''Dots'', JNull), (''Fours'', JNull),
       (''Sixes'', JNull), (''NoBalls'', JNull), (''Wides'', JNull)],
      [(''PlayerTeamName'', JStr ''1st XI''),
       (''OppositionTeamName'', JStr ''Bowling Old Lane CC''),
       (''PlayerName'', JStr ''D Long''), (''Overs'', JNum 40),
       (''Maidens'', JNull), (''Runs'', JNum 43), (''Wickets'', JNull),
       (''Economy'', JNum (4818851601286431 / 4503599627370496)), (''Dots'', JNull),
       (''Fours'', JNull), (''Sixes'', JNull), (''NoBalls'', JNull), (''Wides'', JNull)]]"

text \<open>A season: two tables and the sponsor sheet.\<close>

definition batting_row :: "string \<Rightarrow> json \<Rightarrow> json \<Rightarrow> row" where
  "batting_row name runs balls =
     [(''PlayerTeamName'', JStr ''1st XI''), (''OppositionTeamName'', JStr ''Bowling Old Lane CC''),
      (''PlayerName'', JStr name), (''Runs'', runs), (''Balls'', balls), (''Minutes'', JNull),
      (''Fours'', JNum 0), (''Sixes'', JNum 0), (''StrikeRate'', JNull), (''HowOut'', JStr ''b''),
      (''IsDismissed'', JBool True)]"

definition bowling_row :: "string \<Rightarrow> json \<Rightarrow> json \<Rightarrow> row" where
  "bowling_row name wickets runs =
     [(''PlayerTeamName'', JStr ''1st XI''), (''OppositionTeamName'', JStr ''Bowling Old Lane CC''),
      (''PlayerName'', JStr name), (''Overs'', JNum 4), (''Maidens'', JNum 0), (''Runs'', runs),
      (''Wickets'', wickets), (''Economy'', JNull), (''Dots'', JNum 9), (''Fours'', JNull),
      (''Sixes'', JNull), (''NoBalls'', JNum 0), (''Wides'', JNum 1)]"

definition season_batting :: frame where
  "season_batting =
     [batting_row ''A Batter*'' (JNum 45) (JNum 30),
      batting_row ''T Stead'' (JNum 80) (JNum 55),
      batting_row ''Extras'' (JNum 99) JNull,
      batting_row ''C Hitter'' (JNum 45) (JNum 28),
      batting_row ''D Nought'' (JNum 0) JNull,
      batting_row ''E Five'' (JNum 5) (JNum 9),
      batting_row ''F Ten'' (JNum 10) (JNum 12),
      batting_row ''G Twenty'' (JNum 20) (JNum 20),
      batting_row ''Total'' (JNum 304) JNull]"

definition season_bowling :: frame where
  "season_bowling =
     [bowling_row ''B Bowler'' (JNum 3) (JNum 17),
      bowling_row ''C Change'' (JNum 3) (JNum 12),
      bowling_row ''Extras'' (JNum 9) (JNum 0),
      bowling_row ''T Stead'' (JNum 1) (JNum 30)]"

definition sponsor_rows :: "(json \<times> json) list" where
  "sponsor_rows = [(JStr ''Ted Stead'', JStr ''Acme Ltd''), (JStr ''B Bowler'', JStr ''The Bakery''),
                   (JStr ''C Hitter'', JNull)]"

definition season_result :: "(json \<times> json) list" where
  "season_result = [(JStr ''Ted Stead'', JStr ''Acme Ltd''), (JStr ''B Bowler'', JStr ''The Bakery'')]"


section \<open>Exceptions: basic facts\<close>

lemma bindE_Inl [simp]: "bindE (Inl e) f = Inl e"
  by (simp add: bindE_def)

lemma bindE_Inr [simp]: "bindE (Inr x) f = f x"
  by (simp add: bindE_def)

lemma bindE_eq_Inr: "bindE m f = Inr y \<longleftrightarrow> (\<exists>x. m = Inr x \<and> f x = Inr y)"
  by (cases m) simp_all

lemma bindE_eq_Inl: "bindE m f = Inl e \<longleftrightarrow> m = Inl e \<or> (\<exists>x. m = Inr x \<and> f x = Inl e)"
  by (cases m) simp_all

section \<open>Floats: rounding is near, and a tie goes to the even neighbour\<close>

lemma round_half_even_near: "\<bar>of_int (round_half_even y) - y\<bar> \<le> 1 / 2"
  unfolding round_half_even_def Let_def by (auto simp: abs_if) linarith+

lemma round2_hundredth: "\<exists>k. round2 x = of_int k / 100"
  unfolding round2_def by blast

lemma round2_near: "\<bar>round2 x - x\<bar> \<le> 1 / 200"
proof -
  have "\<bar>of_int (round_half_even (x * 100)) - x * 100\<bar> \<le> 1 / 2"
    by (rule round_half_even_near)
  then have "\<bar>(of_int (round_half_even (x * 100)) - x * 100) / 100\<bar> \<le> (1 / 2) / 100"
    by (simp only: abs_divide) (simp add: divide_right_mono)
  then show ?thesis
    by (simp add: round2_def diff_divide_distrib)
qed

lemma binary_exponent_le:
  assumes "0 < x"
  shows "2 powi binary_exponent x \<le> x"
proof -
  obtain p q where pq: "quotient_of x = (p, q)" by (cases "quotient_of x")
  then have q: "0 < q" and x: "x = of_int p / of_int q"
    by (simp_all add: quotient_of_denom_pos quotient_of_div)
  with assms have p: "0 < p"
    by (simp add: zero_less_divide_iff)
  let ?e = "bitlen p - bitlen q"
  show ?thesis
  proof (cases "2 powi ?e \<le> x")
    case True
    then show ?thesis by (simp add: binary_exponent_def pq)
  next
    case False
    from bitlen_bounds [OF p] have lo: "(2::rat) ^ nat (bitlen p - 1) \<le> of_int p"
      by (metis of_int_le_iff of_int_numeral of_int_power)
    from bitlen_bounds [OF q] have hi: "of_int q \<le> (2::rat) ^ nat (bitlen q)"
      by (metis less_imp_le of_int_le_iff of_int_numeral of_int_power)
    from p q have bp: "0 < bitlen p" "0 < bitlen q"
      using bitlen_nonneg [of p] bitlen_nonneg [of q] bitlen_eq_zero_iff [of p]
        bitlen_eq_zero_iff [of q]
      by linarith+
    have "(2::rat) powi (?e - 1) = 2 powi (bitlen p - 1) / 2 powi bitlen q"
      by (simp add: power_int_diff)
    also have "\<dots> = 2 ^ nat (bitlen p - 1) / 2 ^ nat (bitlen q)"
      using bp by (simp add: power_int_def)
    also have "\<dots> \<le> of_int p / of_int q"
      using lo hi p q by (intro frac_le) simp_all
    finally have "(2::rat) powi (?e - 1) \<le> x"
      by (simp only: x)
    moreover from False have "binary_exponent x = ?e - 1"
      by (simp add: binary_exponent_def pq)
    ultimately show ?thesis by simp
  qed
qed

lemma to_double_near: "\<bar>to_double x - x\<bar> \<le> \<bar>x\<bar> / 2 ^ 53"
proof (cases "x = 0")
  case True
  then show ?thesis by (simp add: to_double_def)
next
  case False
  define u :: rat where "u = 2 powi (binary_exponent \<bar>x\<bar> - 52)"
  have u: "0 < u" by (simp add: u_def)
  have "u * 2 ^ 52 = 2 powi binary_exponent \<bar>x\<bar>"
    by (simp add: u_def power_int_diff)
  also have "\<dots> \<le> \<bar>x\<bar>"
    using False by (intro binary_exponent_le) simp
  finally have ux: "u / 2 \<le> \<bar>x\<bar> / 2 ^ 53" by simp
  have "\<bar>of_int (round_half_even (x / u)) - x / u\<bar> * u \<le> (1 / 2) * u"
    using u round_half_even_near [of "x / u"] by (intro mult_right_mono) simp_all
  moreover have "\<bar>of_int (round_half_even (x / u)) - x / u\<bar> * u
                   = \<bar>(of_int (round_half_even (x / u)) - x / u) * u\<bar>"
    using u by (simp add: abs_mult)
  moreover have "(of_int (round_half_even (x / u)) - x / u) * u
                   = of_int (round_half_even (x / u)) * u - x"
    using u by (simp add: left_diff_distrib)
  ultimately have "\<bar>of_int (round_half_even (x / u)) * u - x\<bar> \<le> u / 2" by simp
  with ux False show ?thesis
    by (simp add: to_double_def u_def Let_def)
qed


lemma binary_exponent_less:
  assumes "0 < x"
  shows "x < 2 powi (binary_exponent x + 1)"
proof -
  obtain p q where pq: "quotient_of x = (p, q)" by (cases "quotient_of x")
  then have q: "0 < q" and x: "x = of_int p / of_int q"
    by (simp_all add: quotient_of_denom_pos quotient_of_div)
  with assms have p: "0 < p"
    by (simp add: zero_less_divide_iff)
  let ?e = "bitlen p - bitlen q"
  show ?thesis
  proof (cases "2 powi ?e \<le> x")
    case True
    from bitlen_bounds [OF p] have hi: "of_int p < (2::rat) ^ nat (bitlen p)"
      by (metis of_int_less_iff of_int_numeral of_int_power)
    from bitlen_bounds [OF q] have lo: "(2::rat) ^ nat (bitlen q - 1) \<le> of_int q"
      by (metis of_int_le_iff of_int_numeral of_int_power)
    from p q have bp: "0 < bitlen p" "0 < bitlen q"
      using bitlen_nonneg [of p] bitlen_nonneg [of q] bitlen_eq_zero_iff [of p]
        bitlen_eq_zero_iff [of q]
      by linarith+
    have "of_int p / of_int q < (2::rat) ^ nat (bitlen p) / 2 ^ nat (bitlen q - 1)"
      using lo hi p q by (intro frac_less) simp_all
    also have "\<dots> = 2 powi bitlen p / 2 powi (bitlen q - 1)"
      using bp by (simp add: power_int_def)
    also have "\<dots> = 2 powi (?e + 1)"
      by (simp add: power_int_diff power_int_add)
    finally have "x < 2 powi (?e + 1)"
      by (simp only: x)
    moreover from True have "binary_exponent x = ?e"
      by (simp add: binary_exponent_def pq)
    ultimately show ?thesis by simp
  next
    case False
    then have "binary_exponent x = ?e - 1"
      by (simp add: binary_exponent_def pq)
    with False show ?thesis by simp
  qed
qed

lemma round_half_even_mono: "x \<le> y \<Longrightarrow> round_half_even x \<le> round_half_even y"
proof -
  assume xy: "x \<le> y"
  then have f: "\<lfloor>x\<rfloor> \<le> \<lfloor>y\<rfloor>" by (rule floor_mono)
  show ?thesis
  proof (cases "\<lfloor>x\<rfloor> = \<lfloor>y\<rfloor>")
    case True
    with xy show ?thesis
      by (auto simp: round_half_even_def Let_def)
  next
    case False
    with f have "\<lfloor>x\<rfloor> + 1 \<le> \<lfloor>y\<rfloor>" by simp
    moreover have "round_half_even x \<le> \<lfloor>x\<rfloor> + 1" "\<lfloor>y\<rfloor> \<le> round_half_even y"
      by (auto simp: round_half_even_def Let_def)
    ultimately show ?thesis by linarith
  qed
qed

lemma round_half_even_of_int [simp]: "round_half_even (of_int k) = k"
  by (simp add: round_half_even_def)

lemma to_double_mantissa:
  assumes "x \<noteq> 0"
  shows "\<exists>m. to_double x = of_int m * 2 powi (binary_exponent \<bar>x\<bar> - 52) \<and> \<bar>m\<bar> \<le> 2 ^ 53"
proof -
  define u :: rat where "u = 2 powi (binary_exponent \<bar>x\<bar> - 52)"
  have u: "0 < u" by (simp add: u_def)
  have "\<bar>x\<bar> < 2 powi (binary_exponent \<bar>x\<bar> + 1)"
    using assms by (intro binary_exponent_less) simp
  also have "\<dots> = u * 2 ^ 53"
    by (simp add: u_def power_int_diff power_int_add)
  finally have "\<bar>x\<bar> / u < 2 ^ 53"
    using u by (simp add: divide_less_eq mult.commute)
  moreover define k :: int where "k = 2 ^ 53"
  ultimately have b: "x / u \<le> of_int k" "of_int (- k) \<le> x / u"
    using u by (simp_all add: abs_if divide_simps split: if_splits)
  have "round_half_even (x / u) \<le> round_half_even (of_int k)"
    "round_half_even (of_int (- k)) \<le> round_half_even (x / u)"
    using b by (simp_all only: round_half_even_mono)
  then have "\<bar>round_half_even (x / u)\<bar> \<le> k"
    by (simp only: round_half_even_of_int)
  then have "\<bar>round_half_even (x / u)\<bar> \<le> 2 ^ 53"
    by (simp add: k_def)
  with assms show ?thesis
    by (auto simp: to_double_def u_def Let_def)
qed

lemma round_half_even_tie:
  "\<bar>of_int (round_half_even y) - y\<bar> = 1 / 2 \<Longrightarrow> even (round_half_even y)"
  unfolding round_half_even_def Let_def
  by (auto simp: abs_if split: if_splits) linarith+

lemma round2_tie: "\<bar>round2 x - x\<bar> = 1 / 200 \<Longrightarrow> even (round_half_even (x * 100))"
proof -
  assume "\<bar>round2 x - x\<bar> = 1 / 200"
  then have "\<bar>(of_int (round_half_even (x * 100)) - x * 100) / 100\<bar> = 1 / 200"
    by (simp add: round2_def diff_divide_distrib)
  then have "\<bar>of_int (round_half_even (x * 100)) - x * 100\<bar> = 1 / 2"
    by (simp only: abs_divide) simp
  then show ?thesis by (rule round_half_even_tie)
qed

lemma to_double_nonneg: "0 \<le> x \<Longrightarrow> 0 \<le> to_double x"
proof -
  assume x: "0 \<le> x"
  have "0 \<le> round_half_even (x / 2 powi (binary_exponent \<bar>x\<bar> - 52))"
    using round_half_even_mono [of 0 "x / 2 powi (binary_exponent \<bar>x\<bar> - 52)"] x
    by (simp add: round_half_even_def)
  then show ?thesis
    by (simp add: to_double_def Let_def)
qed

lemma decoded_of_int [simp]: "decoded (of_int k) = of_int k"
  by (simp add: decoded_def)

lemma decoded_of_nat [simp]: "decoded (of_nat n) = of_nat n"
  using decoded_of_int [of "int n"] by simp

lemma rounded_quotient_float_round2:
  "rounded_quotient runs overs (float_round2 (to_double (decoded runs / decoded overs)))"
proof -
  define q where "q = to_double (decoded runs / decoded overs)"
  define k where "k = round_half_even (q * 100)"
  have h: "of_int k / 100 = round2 q"
    by (simp add: k_def round2_def)
  have "\<bar>of_int k / 100 - q\<bar> \<le> 1 / 200"
    unfolding h by (rule round2_near)
  moreover have "\<bar>of_int k / 100 - q\<bar> = 1 / 200 \<longrightarrow> even k"
    using round2_tie [of q] by (simp add: k_def round2_def)
  moreover have "\<bar>to_double (of_int k / 100) - of_int k / 100\<bar> \<le> \<bar>of_int k / 100\<bar> / 2 ^ 53"
    by (rule to_double_near)
  moreover have "\<bar>q - decoded runs / decoded overs\<bar> \<le> \<bar>decoded runs / decoded overs\<bar> / 2 ^ 53"
    unfolding q_def by (rule to_double_near)
  ultimately show ?thesis
    unfolding rounded_quotient_def float_round2_def q_def [symmetric] h [symmetric]
    by (intro exI [of _ q] exI [of _ k]) (simp add: h q_def)
qed

section \<open>The fetch policy\<close>

lemma validate_nv_Inr:
  "validate_nv d = Inr d' \<longleftrightarrow> d' = d \<and> has_match_and_innings (Inr d)"
  by (cases d) (auto simp: validate_nv_def has_match_and_innings_def py_get_def)

lemma validate_rv_Inr:
  "validate_rv d = Inr d' \<longleftrightarrow> d' = d \<and> truthy d \<and> py_in ''MatchTeams'' d = Inr True"
  by (cases d) (auto simp: validate_rv_def)

lemma primary_accepted_iff:
  "bindE nv validate_nv = Inr d \<longleftrightarrow> nv = Inr d \<and> has_match_and_innings nv"
  by (cases nv) (auto simp: validate_nv_Inr has_match_and_innings_def)

text \<open>
  Claim C1, as amended. In the loop of \<open>main\<close> the primary response is accepted exactly
  when the call returned a JSON object with a \<open>Match\<close> key and a truthy \<open>Innings\<close>, and
  then no other call is made. In every other case (the call raised, or the checks
  failed) the calls are the primary call and then one fallback call, and the outcome is
  the fallback's checked response. The fallback is accepted only if it is truthy and
  \<open>'MatchTeams' in data\<close> holds: for a JSON object, that it has the key.
\<close>

theorem fetch_match_policy:
  "(has_match_and_innings nv \<longrightarrow> fetch_match nv rv = ([Nv_api_call], nv))
   \<and> (\<not> has_match_and_innings nv \<longrightarrow>
        fetch_match nv rv = ([Nv_api_call, Results_vault_api_call], bindE rv validate_rv))
   \<and> (bindE rv validate_rv = Inr d \<longrightarrow>
        rv = Inr d \<and> truthy d \<and> py_in ''MatchTeams'' d = Inr True
        \<and> (\<forall>kvs. d = JObj kvs \<longrightarrow> ''MatchTeams'' \<in> set (map fst kvs)))"
proof (intro conjI impI)
  assume ok: "has_match_and_innings nv"
  then obtain d where d: "nv = Inr d"
    by (cases nv) (simp_all add: has_match_and_innings_def)
  with ok have "bindE nv validate_nv = Inr d"
    by (simp add: validate_nv_Inr)
  with d show "fetch_match nv rv = ([Nv_api_call], nv)"
    by (simp add: fetch_match_def)
next
  assume bad: "\<not> has_match_and_innings nv"
  then have "\<And>d. bindE nv validate_nv \<noteq> Inr d"
    by (simp add: primary_accepted_iff)
  then obtain e where "bindE nv validate_nv = Inl e"
    by (cases "bindE nv validate_nv") auto
  then show "fetch_match nv rv = ([Nv_api_call, Results_vault_api_call], bindE rv validate_rv)"
    by (simp add: fetch_match_def)
next
  assume acc: "bindE rv validate_rv = Inr d"
  then show "rv = Inr d" "truthy d" "py_in ''MatchTeams'' d = Inr True"
    by (auto simp: bindE_eq_Inr validate_rv_Inr)
  then show "\<forall>kvs. d = JObj kvs \<longrightarrow> ''MatchTeams'' \<in> set (map fst kvs)"
    by auto
qed

text \<open>The policy at a response that is accepted and at one whose \<open>Innings\<close> is empty.\<close>

theorem fetch_match_policy_witness:
  "has_match_and_innings (Inr nv_example)
   \<and> fetch_match (Inr nv_example) (Inl HTTPError) = ([Nv_api_call], Inr nv_example)
   \<and> \<not> has_match_and_innings (Inr (JObj [(''Match'', JNull), (''Innings'', JList [])]))
   \<and> fetch_match (Inr (JObj [(''Match'', JNull), (''Innings'', JList [])])) (Inr rv_home_example)
       = ([Nv_api_call, Results_vault_api_call], Inr rv_home_example)
   \<and> bindE (Inr rv_home_example) validate_rv = Inr rv_home_example
   \<and> py_in ''MatchTeams'' rv_home_example = Inr True"
proof -
  have a: "has_match_and_innings (Inr nv_example)"
    by (simp add: has_match_and_innings_def nv_example_def dict_get_def)
  have b: "\<not> has_match_and_innings (Inr (JObj [(''Match'', JNull), (''Innings'', JList [])]))"
    by (simp add: has_match_and_innings_def dict_get_def)
  have c: "bindE (Inr rv_home_example) validate_rv = Inr rv_home_example"
    by (simp add: validate_rv_def rv_home_example_def)
  from a b c
    fetch_match_policy [of "Inr nv_example" "Inl HTTPError" rv_home_example]
    fetch_match_policy [of "Inr (JObj [(''Match'', JNull), (''Innings'', JList [])])"
                           "Inr rv_home_example" rv_home_example]
  show ?thesis by simp
qed

text \<open>
  Claim C1 as stated fails twice. \<open>get_scorecard\<close> accepts a primary response with neither
  key, and the loop of \<open>main\<close> accepts the fallback response \<open>["MatchTeams"]\<close>, a list that
  has no key at all.
\<close>

theorem get_scorecard_counterexample:
  "get_scorecard (Inr (JObj [])) (Inl HTTPError) = ([Nv_api_call], Inr (JObj []))
   \<and> \<not> has_match_and_innings (Inr (JObj []))
   \<and> fetch_match (Inl HTTPError) (Inr (JList [JStr ''MatchTeams'']))
       = ([Nv_api_call, Results_vault_api_call], Inr (JList [JStr ''MatchTeams'']))"
  by (simp add: get_scorecard_def has_match_and_innings_def fetch_match_def validate_rv_def)

section \<open>The dispatcher\<close>

text \<open>
  Claim C4. \<open>process_data\<close> looks at the top-level keys only: with a \<open>Match\<close> key the
  payload goes to parser A; without it and with a \<open>MatchTeams\<close> key, to parser B; with
  neither, the result is two empty tables and nothing is raised.
\<close>

theorem process_data_dispatch:
  "(''Match'' \<in> set (map fst kvs) \<longrightarrow>
      process_data team_name (JObj kvs) = nv_process_data team_name (JObj kvs))
   \<and> (''Match'' \<notin> set (map fst kvs) \<and> ''MatchTeams'' \<in> set (map fst kvs) \<longrightarrow>
      process_data team_name (JObj kvs) = results_vault_process_data team_name (JObj kvs))
   \<and> (''Match'' \<notin> set (map fst kvs) \<and> ''MatchTeams'' \<notin> set (map fst kvs) \<longrightarrow>
      process_data team_name (JObj kvs) = Inr ([], []))"
  by (simp add: process_data_def)

theorem process_data_dispatch_witness:
  "process_data ''Lightcliffe CC'' nv_example = nv_process_data ''Lightcliffe CC'' nv_example
   \<and> process_data ''Lightcliffe CC'' rv_home_example
       = results_vault_process_data ''Lightcliffe CC'' rv_home_example
   \<and> process_data ''Lightcliffe CC'' (JObj [(''error'', JStr ''not found'')]) = Inr ([], [])"
  using
    process_data_dispatch [of "[(''Match'', JObj [(''Team1Name'', JStr ''Lightcliffe CC 1st XI''),
                             (''Team2Name'', JStr ''Bowling Old Lane CC'')]),
           (''Innings'', JList [
              JObj [(''BattingTeamName'', JStr ''Lightcliffe CC 1st XI''),
                    (''BattingCard'', JList [
                       JObj [(''PlayerName'', JStr ''A Batter''), (''Runs'', JNum 80),
                             (''Balls'', JNum 55)],
                       JObj [(''PlayerName'', JStr ''Extras''), (''Runs'', JNum 12)]]),
                    (''BowlingCard'', JList [
                       JObj [(''PlayerName'', JStr ''X Opponent''), (''Wickets'', JNum 2)]])],
              JObj [(''BattingTeamName'', JStr ''Bowling Old Lane CC''),
                    (''BattingCard'', JList [
                       JObj [(''PlayerName'', JStr ''Y Opponent''), (''Runs'', JNum 5)]]),
                    (''BowlingCard'', JList [
                       JObj [(''PlayerName'', JStr ''B Bowler''), (''Overs'', JNum 4),
                             (''Runs'', JNum 17), (''Wickets'', JNum 3)]])]])]" "''Lightcliffe CC''"]
    process_data_dispatch [of "[(''home_name'', JStr ''Lightcliffe CC 1st XI''),
           (''away_name'', JStr ''Bowling Old Lane CC''),
           (''MatchTeams'', JList [
              JObj [(''team_name'', JStr ''Lightcliffe CC 1st XI''),
                    (''TeamMembers'', JList [
                       JObj [(''player_id'', JNum 1), (''player_name2'', JStr ''A Batter'')]]),
                    (''Innings'', JList [])]])]" "''Lightcliffe CC''"]
    process_data_dispatch [of "[(''error'', JStr ''not found'')]" "''Lightcliffe CC''"]
  by (simp add: nv_example_def rv_home_example_def)

section \<open>Parser B when the club is the home side\<close>

text \<open>
  Claim C2, at the failing input. The club's name is in \<open>home_name\<close>, so line 221 is not
  run, and the first roster entry reads a variable that was never assigned.
\<close>

theorem results_vault_home_club:
  "results_vault_process_data ''Lightcliffe CC'' rv_home_example = Inl NameError"
  by code_simp

section \<open>The positions on the image\<close>

text \<open>
  Claim C3, at the failing input. With one entry the only position is computed as
  \<open>0 * 915 / 0\<close>.
\<close>

theorem y_positions_one_entry: "y_positions 1 = Inl ZeroDivisionError"
  by code_simp

section \<open>A week without scorecards\<close>

lemma match_loop_all_skipped:
  "\<forall>x \<in> set ms. isl (snd (fetch_match (nv_api_call env x) (results_vault_api_call env x h)))
   \<Longrightarrow> match_loop env team_name h ms dfs = Inr dfs"
proof (induction ms)
  case Nil
  show ?case by (cases dfs) simp
next
  case (Cons m ms)
  then obtain e where
    "snd (fetch_match (nv_api_call env m) (results_vault_api_call env m h)) = Inl e"
    by (auto simp: isl_def)
  with Cons show ?case by (cases dfs) simp
qed

text \<open>
  Claim C10, as amended. When the match list is not empty, the header probe returns, and
  the fetch of every match fails, \<open>main\<close> raises NameError at line 63.
\<close>

theorem main_without_scorecards:
  assumes "get_match_ids env = Inr (m # ms)"
    and "get_ias_api_header_from_match_page env m = Inr h"
    and "\<forall>x \<in> set (m # ms).
           isl (snd (fetch_match (nv_api_call env x) (results_vault_api_call env x h)))"
  shows "main env team_name = Inl NameError"
  using assms(1,2) match_loop_all_skipped [OF assms(3), of team_name "([], [])"]
  by (simp add: main_def)

theorem main_without_scorecards_witness:
  "get_match_ids no_scorecards = Inr [''7126243'']
   \<and> main no_scorecards ''Lightcliffe CC'' = Inl NameError"
proof -
  have a: "get_match_ids no_scorecards = Inr [''7126243'']"
    by (simp add: no_scorecards_def)
  have b: "get_ias_api_header_from_match_page no_scorecards ''7126243'' = Inr (JStr ''token'')"
    by (simp add: no_scorecards_def)
  have c: "\<forall>x \<in> set [''7126243'']. isl (snd (fetch_match (nv_api_call no_scorecards x)
              (results_vault_api_call no_scorecards x (JStr ''token''))))"
    by (simp add: no_scorecards_def fetch_match_def)
  from a main_without_scorecards [OF a b c] show ?thesis by simp
qed

text \<open>
  Claim C10 as stated fails on the empty match list: line 34 reads \<open>match_numbers[0]\<close>
  before the loop, and that raises IndexError.
\<close>

theorem main_empty_match_list_counterexample:
  "get_match_ids no_matches = Inr [] \<and> main no_matches ''Lightcliffe CC'' = Inl IndexError"
  by (simp add: main_def no_matches_def)

section \<open>Loops: basic facts\<close>

lemma mapE_Inr: "mapE f xs = Inr ys \<longleftrightarrow> list_all2 (\<lambda>x y. f x = Inr y) xs ys"
proof (induction xs arbitrary: ys)
  case Nil
  show ?case by auto
next
  case (Cons x xs)
  show ?case
    by (cases ys) (auto simp: bindE_eq_Inr Cons.IH)
qed

lemma mapE_returns:
  "(\<And>x. x \<in> set xs \<Longrightarrow> \<exists>y. f x = Inr y) \<Longrightarrow> \<exists>ys. mapE f xs = Inr ys"
proof (induction xs)
  case Nil
  show ?case by simp
next
  case (Cons x xs)
  then obtain y ys where "f x = Inr y" "mapE f xs = Inr ys"
    by (meson list.set_intros)
  then show ?case by simp
qed

lemma for_each_returns:
  "(\<And>x. x \<in> set xs \<Longrightarrow> \<exists>r. body x = Inr r) \<Longrightarrow> \<exists>r. for_each body xs = Inr r"
proof (induction xs)
  case Nil
  show ?case by simp
next
  case (Cons x xs)
  then obtain r rs where "body x = Inr r" "for_each body xs = Inr rs"
    by (meson list.set_intros)
  then show ?case by (cases r; cases rs) simp
qed

lemma for_each_Cons_Inr:
  "for_each body (x # xs) = Inr (b, w) \<longleftrightarrow>
     (\<exists>b1 w1 b2 w2. body x = Inr (b1, w1) \<and> for_each body xs = Inr (b2, w2)
        \<and> b = b1 @ b2 \<and> w = w1 @ w2)"
  by (auto simp: bindE_eq_Inr)

section \<open>Parser A emits every card entry\<close>

lemma nv_innings_Inr:
  assumes "nv_innings team_name num opp i = Inr (b, w)"
  shows "if club_batting team_name num i
         then list_all2 (\<lambda>e r. nv_batting_record num opp e = Inr r) (card ''BattingCard'' i) b \<and> w = []
         else b = [] \<and> list_all2 (\<lambda>e r. nv_bowling_record num opp e = Inr r) (card ''BowlingCard'' i) w"
  using assms
  by (auto simp: nv_innings_def club_batting_def card_def bindE_eq_Inr mapE_Inr split: if_splits)

lemma nv_loop_Inr:
  "for_each (nv_innings team_name num opp) xs = Inr (b, w) \<Longrightarrow>
     list_all2 (\<lambda>e r. nv_batting_record num opp e = Inr r)
       (concat (map (card ''BattingCard'') (filter (club_batting team_name num) xs))) b
     \<and> list_all2 (\<lambda>e r. nv_bowling_record num opp e = Inr r)
       (concat (map (card ''BowlingCard'') (filter (\<lambda>i. \<not> club_batting team_name num i) xs))) w"
proof (induction xs arbitrary: b w)
  case Nil
  then show ?case by simp
next
  case (Cons i xs)
  from Cons.prems obtain b1 w1 b2 w2 where
    i: "nv_innings team_name num opp i = Inr (b1, w1)" and
    r: "for_each (nv_innings team_name num opp) xs = Inr (b2, w2)" and
    bw: "b = b1 @ b2" "w = w1 @ w2"
    by (auto simp: for_each_Cons_Inr simp del: for_each.simps)
  from Cons.IH [OF r] nv_innings_Inr [OF i] bw show ?case
    by (auto intro: list_all2_appendI split: if_splits)
qed

lemma is_str_iff: "is_str v \<longleftrightarrow> (\<exists>s. v = JStr s)"
  by (cases v) simp_all

lemma dict_with_iff: "dict_with P v \<longleftrightarrow> (\<exists>kvs. v = JObj kvs \<and> P kvs)"
  by (cases v) simp_all

lemma list_with_iff: "list_with P v \<longleftrightarrow> (\<exists>xs. v = JList xs \<and> list_all P xs)"
  by (cases v) simp_all

lemma shape_A_innings_of:
  "shape_A data \<Longrightarrow> py_get data ''Innings'' (JList []) = Inr (JList (innings_of data))
     \<and> list_all innings_ok (innings_of data)"
  by (auto simp: shape_A_def innings_of_def py_get_def dict_with_iff list_with_iff)

lemma shape_A_teams: "shape_A data \<Longrightarrow> \<exists>r. nv_teams team_name data = Inr r"
  by (auto simp: shape_A_def nv_teams_def py_get_def dict_with_iff is_str_iff)

lemma batsman_ok_record: "batsman_ok e \<Longrightarrow> \<exists>r. nv_batting_record num opp e = Inr r"
  by (auto simp: batsman_ok_def nv_batting_record_def py_round2_def dict_with_iff)

lemma is_dict_record: "dict_with (\<lambda>b. True) e \<Longrightarrow> \<exists>r. nv_bowling_record num opp e = Inr r"
  by (auto simp: nv_bowling_record_def dict_with_iff)

lemma innings_ok_returns: "innings_ok i \<Longrightarrow> \<exists>r. nv_innings team_name num opp i = Inr r"
proof -
  assume ok: "innings_ok i"
  then obtain kvs bs ws where i: "i = JObj kvs"
    and bs: "dict_get kvs ''BattingCard'' (JList []) = JList bs" "list_all batsman_ok bs"
    and ws: "dict_get kvs ''BowlingCard'' (JList []) = JList ws"
            "list_all (dict_with (\<lambda>b. True)) ws"
    by (auto simp: innings_ok_def dict_with_iff list_with_iff)
  from bs(2) obtain rb where rb: "mapE (nv_batting_record num opp) bs = Inr rb"
    using mapE_returns [of bs "nv_batting_record num opp"] batsman_ok_record
    by (auto simp: list_all_iff)
  from ws(2) obtain rw where rw: "mapE (nv_bowling_record num opp) ws = Inr rw"
    using mapE_returns [of ws "nv_bowling_record num opp"] is_dict_record
    by (auto simp: list_all_iff)
  show ?thesis
    by (simp add: nv_innings_def i py_get_def bs ws rb rw)
qed

text \<open>
  Claim C7. On a payload of the primary shape \<open>nv_process_data\<close> returns. Whenever it
  returns, its batting table holds one record for each entry of the batting card of each
  innings whose \<open>BattingTeamName\<close> is the club name, a space and the team-number suffix,
  in order, and its bowling table one record for each entry of the bowling card of every
  other innings; so the numbers of records are the numbers of card entries.
\<close>

theorem nv_process_data_every_entry:
  "(shape_A data \<longrightarrow> (\<exists>r. nv_process_data team_name data = Inr r))
   \<and> (nv_process_data team_name data = Inr (batting, bowling) \<longrightarrow>
        (\<exists>team_number opposition.
           nv_teams team_name data = Inr (team_number, opposition)
           \<and> list_all2 (\<lambda>e r. nv_batting_record team_number opposition e = Inr r)
               (concat (map (card ''BattingCard'')
                  (filter (club_batting team_name team_number) (innings_of data)))) batting
           \<and> list_all2 (\<lambda>e r. nv_bowling_record team_number opposition e = Inr r)
               (concat (map (card ''BowlingCard'')
                  (filter (\<lambda>i. \<not> club_batting team_name team_number i) (innings_of data)))) bowling
           \<and> length batting =
               (\<Sum>i \<leftarrow> filter (club_batting team_name team_number) (innings_of data).
                  length (card ''BattingCard'' i))
           \<and> length bowling =
               (\<Sum>i \<leftarrow> filter (\<lambda>i. \<not> club_batting team_name team_number i) (innings_of data).
                  length (card ''BowlingCard'' i))))"
proof (intro conjI impI)
  assume sh: "shape_A data"
  from shape_A_teams [OF sh] obtain num opp where t: "nv_teams team_name data = Inr (num, opp)"
    by fastforce
  from shape_A_innings_of [OF sh] have
    g: "py_get data ''Innings'' (JList []) = Inr (JList (innings_of data))" and
    ok: "list_all innings_ok (innings_of data)"
    by simp_all
  from ok have "\<exists>r. for_each (nv_innings team_name num opp) (innings_of data) = Inr r"
    by (intro for_each_returns innings_ok_returns) (simp add: list_all_iff)
  with t g show "\<exists>r. nv_process_data team_name data = Inr r"
    by (simp add: nv_process_data_def)
next
  assume run: "nv_process_data team_name data = Inr (batting, bowling)"
  then obtain num opp v xs where t: "nv_teams team_name data = Inr (num, opp)"
    and g: "py_get data ''Innings'' (JList []) = Inr v" and it: "py_iter v = Inr xs"
    and loop: "for_each (nv_innings team_name num opp) xs = Inr (batting, bowling)"
    by (auto simp: nv_process_data_def bindE_eq_Inr)
  from g it have xs: "innings_of data = xs"
    by (simp add: innings_of_def)
  note rows = nv_loop_Inr [OF loop]
  from rows have
    "length batting = length (concat (map (card ''BattingCard'') (filter (club_batting team_name num) xs)))"
    "length bowling = length (concat (map (card ''BowlingCard'') (filter (\<lambda>i. \<not> club_batting team_name num i) xs)))"
    by (auto dest: list_all2_lengthD)
  then have
    "length batting = (\<Sum>i \<leftarrow> filter (club_batting team_name num) xs. length (card ''BattingCard'' i))"
    "length bowling = (\<Sum>i \<leftarrow> filter (\<lambda>i. \<not> club_batting team_name num i) xs. length (card ''BowlingCard'' i))"
    by (simp_all add: length_concat comp_def)
  with t rows xs show "\<exists>team_number opposition.
           nv_teams team_name data = Inr (team_number, opposition)
           \<and> list_all2 (\<lambda>e r. nv_batting_record team_number opposition e = Inr r)
               (concat (map (card ''BattingCard'')
                  (filter (club_batting team_name team_number) (innings_of data)))) batting
           \<and> list_all2 (\<lambda>e r. nv_bowling_record team_number opposition e = Inr r)
               (concat (map (card ''BowlingCard'')
                  (filter (\<lambda>i. \<not> club_batting team_name team_number i) (innings_of data)))) bowling
           \<and> length batting =
               (\<Sum>i \<leftarrow> filter (club_batting team_name team_number) (innings_of data).
                  length (card ''BattingCard'' i))
           \<and> length bowling =
               (\<Sum>i \<leftarrow> filter (\<lambda>i. \<not> club_batting team_name team_number i) (innings_of data).
                  length (card ''BowlingCard'' i))"
    by auto
qed


theorem nv_process_data_every_entry_witness:
  "shape_A nv_example
   \<and> nv_process_data ''Lightcliffe CC'' nv_example = Inr (nv_example_batting, nv_example_bowling)
   \<and> (\<exists>team_number opposition.
         nv_teams ''Lightcliffe CC'' nv_example = Inr (team_number, opposition)
         \<and> length nv_example_batting =
             (\<Sum>i \<leftarrow> filter (club_batting ''Lightcliffe CC'' team_number) (innings_of nv_example).
                length (card ''BattingCard'' i))
         \<and> length nv_example_bowling =
             (\<Sum>i \<leftarrow> filter (\<lambda>i. \<not> club_batting ''Lightcliffe CC'' team_number i)
                         (innings_of nv_example).
                length (card ''BowlingCard'' i)))
   \<and> length nv_example_batting = 2 \<and> length nv_example_bowling = 1"
proof -
  have a: "shape_A nv_example"
    by code_simp
  have b: "nv_process_data ''Lightcliffe CC'' nv_example
             = Inr (nv_example_batting, nv_example_bowling)"
    by code_simp
  have c: "length nv_example_batting = 2 \<and> length nv_example_bowling = 1"
    by (simp add: nv_example_batting_def nv_example_bowling_def)
  from nv_process_data_every_entry
         [of nv_example "''Lightcliffe CC''" nv_example_batting nv_example_bowling] a b c
  show ?thesis by blast
qed

section \<open>Loops: the rows and the exceptions of the body\<close>

lemma for_each_rows:
  "\<forall>x \<in> set xs. \<forall>b w. body x = Inr (b, w) \<longrightarrow> list_all P b \<and> list_all Q w
   \<Longrightarrow> for_each body xs = Inr (b, w) \<Longrightarrow> list_all P b \<and> list_all Q w"
proof (induction xs arbitrary: b w)
  case Nil
  then show ?case by simp
next
  case (Cons x xs)
  from Cons.prems(2) obtain b1 w1 b2 w2 where
    x: "body x = Inr (b1, w1)" and r: "for_each body xs = Inr (b2, w2)" and
    bw: "b = b1 @ b2" "w = w1 @ w2"
    by (auto simp: for_each_Cons_Inr simp del: for_each.simps)
  from Cons.prems(1) x have "list_all P b1 \<and> list_all Q w1" by simp
  moreover from Cons.prems(1) have "list_all P b2 \<and> list_all Q w2"
    by (intro Cons.IH [OF _ r]) simp
  ultimately show ?case using bw by simp
qed

lemma for_each_Inl:
  "for_each body xs = Inl e \<Longrightarrow> \<exists>x \<in> set xs. body x = Inl e"
proof (induction xs)
  case Nil
  then show ?case by simp
next
  case (Cons x xs)
  then show ?case
    by (cases "body x"; cases "for_each body xs") (auto split: prod.splits)
qed

lemma fold_each_Inl:
  "fold_each body xs s = Inl e \<Longrightarrow> \<exists>x \<in> set xs. \<exists>s'. body x s' = Inl e"
proof (induction xs arbitrary: s)
  case Nil
  then show ?case by simp
next
  case (Cons x xs)
  then show ?case
    by (cases "body x s") auto
qed

section \<open>Which exceptions the primitives raise\<close>

lemma py_get_Inl: "py_get v k d = Inl e \<Longrightarrow> e = AttributeError"
  by (cases v) (simp_all add: py_get_def)

lemma py_iter_Inl: "py_iter v = Inl e \<Longrightarrow> e = TypeError"
  by (cases v) simp_all

lemma py_in_Inl: "py_in k v = Inl e \<Longrightarrow> e = TypeError"
  by (cases v) simp_all

lemma as_dict_Inl: "as_dict v = Inl e \<Longrightarrow> e = AttributeError"
  by (cases v) simp_all

lemma replace_strip_Inl: "replace_strip v old = Inl e \<Longrightarrow> e = AttributeError"
  by (cases v) simp_all

lemma py_startswith_Inl: "py_startswith v p = Inl e \<Longrightarrow> e = AttributeError"
  by (cases v) simp_all

lemma dict_key_Inl: "dict_key v = Inl e \<Longrightarrow> e = TypeError"
  by (cases v) simp_all

lemma dict_subscript_Inl: "dict_subscript kvs k = Inl e \<Longrightarrow> e = KeyError"
  by (simp add: dict_subscript_def split: option.splits)

lemma truthy_number: "truthy v \<Longrightarrow> as_number v = Some y \<Longrightarrow> y \<noteq> 0"
  by (cases v) (auto split: if_splits)

lemma py_truediv_truthy: "truthy b \<Longrightarrow> py_truediv a b \<noteq> Inl ZeroDivisionError"
  by (auto simp: py_truediv_def split: option.splits dest: truthy_number)

lemma py_truediv_Inr:
  "py_truediv a b = Inr q \<longleftrightarrow>
     (\<exists>x y. as_number a = Some x \<and> as_number b = Some y \<and> y \<noteq> 0
            \<and> q = to_double (decoded x / decoded y))"
  by (auto simp: py_truediv_def split: option.splits)

lemma falsy_number: "\<not> truthy v \<Longrightarrow> as_number v = Some y \<Longrightarrow> y = 0"
  by (cases v) (auto split: if_splits)

lemma dict_get_Nil [simp]: "dict_get [] c d = d"
  by (simp add: dict_get_def)

lemma dict_get_Cons [simp]: "dict_get ((k, v) # kvs) c d = (if k = c then v else dict_get kvs c d)"
  by (simp add: dict_get_def)

section \<open>Parser B: the bowling figures\<close>

lemma rv_bowling_record_no_division_error:
  "rv_bowling_record num opp name p \<noteq> Inl ZeroDivisionError"
  by (auto simp: rv_bowling_record_def Let_def bindE_eq_Inl dest: py_truediv_truthy)

lemma rv_bowling_record_figures:
  assumes "rv_bowling_record num opp name p = Inr r"
  shows "bowling_figures r"
proof (cases "truthy (dict_get p ''overs'' (JNum 0))")
  case True
  with assms obtain x y where
    xy: "as_number (dict_get p ''runs'' (JNum 0)) = Some x"
        "as_number (dict_get p ''overs'' (JNum 0)) = Some y" "y \<noteq> 0" and
    r: "r = [(''PlayerTeamName'', JStr num), (''OppositionTeamName'', opp),
             (''PlayerName'', name), (''Overs'', dict_get p ''overs'' (JNum 0)),
             (''Maidens'', dict_get p ''maidens'' JNull),
             (''Runs'', dict_get p ''runs'' (JNum 0)),
             (''Wickets'', dict_get p ''wickets'' JNull),
             (''Economy'', JNum (float_round2 (to_double (decoded x / decoded y)))),
             (''Dots'', dict_get p ''dot_balls'' JNull), (''Fours'', JNull),
             (''Sixes'', JNull), (''NoBalls'', dict_get p ''no_balls'' JNull),
             (''Wides'', dict_get p ''wides'' JNull)]"
    by (auto simp: rv_bowling_record_def Let_def bindE_eq_Inr py_truediv_Inr)
  from True xy rounded_quotient_float_round2 [of x y] show ?thesis
    unfolding r bowling_figures_def cell_def by simp
next
  case False
  with assms have
    r: "r = [(''PlayerTeamName'', JStr num), (''OppositionTeamName'', opp),
             (''PlayerName'', name), (''Overs'', dict_get p ''overs'' (JNum 0)),
             (''Maidens'', dict_get p ''maidens'' JNull),
             (''Runs'', dict_get p ''runs'' (JNum 0)),
             (''Wickets'', dict_get p ''wickets'' JNull),
             (''Economy'', JNull),
             (''Dots'', dict_get p ''dot_balls'' JNull), (''Fours'', JNull),
             (''Sixes'', JNull), (''NoBalls'', dict_get p ''no_balls'' JNull),
             (''Wides'', dict_get p ''wides'' JNull)]"
    by (auto simp: rv_bowling_record_def Let_def)
  from False show ?thesis
    unfolding r bowling_figures_def cell_def by (auto dest: falsy_number)
qed

lemma rv_perf_Inr:
  assumes "rv_perf num opp names club perf = Inr (b, w)"
  shows "w = [] \<or> (\<exists>name p r. rv_bowling_record num opp name p = Inr r \<and> w = [r])"
proof -
  from assms obtain p where p: "as_dict perf = Inr p"
    by (auto simp: rv_perf_def bindE_eq_Inr)
  from assms p obtain m where m: "names = Some m"
    by (cases names) (auto simp: rv_perf_def Let_def)
  from assms p m obtain k where k: "dict_key (dict_get p ''player_id'' JNull) = Inr k"
    by (auto simp: rv_perf_def Let_def bindE_eq_Inr)
  from assms p m k obtain bat where
    bat: "py_startswith (dict_get p ''__type'' (JStr [])) ''Batting'' = Inr bat"
    by (auto simp: rv_perf_def Let_def bindE_eq_Inr)
  show ?thesis
  proof (cases "bat \<and> club")
    case True
    with assms p m k bat show ?thesis
      by (simp add: rv_perf_def Let_def)
  next
    case False
    with assms p m k bat obtain bowl where
      bowl: "py_startswith (dict_get p ''__type'' (JStr [])) ''Bowling'' = Inr bowl"
      by (auto simp: rv_perf_def Let_def bindE_eq_Inr)
    show ?thesis
    proof (cases "bowl \<and> \<not> club")
      case True
      with assms p m k bat bowl False show ?thesis
        by (auto simp: rv_perf_def Let_def bindE_eq_Inr)
    next
      case nb: False
      with assms p m k bat bowl False show ?thesis
        by (auto simp: rv_perf_def Let_def)
    qed
  qed
qed

lemma rv_perf_no_division_error:
  "rv_perf num opp names club perf \<noteq> Inl ZeroDivisionError"
proof
  assume "rv_perf num opp names club perf = Inl ZeroDivisionError"
  then show False
    using rv_bowling_record_no_division_error
    by (auto simp: rv_perf_def bindE_eq_Inl Let_def
             split: option.splits if_splits
             dest: as_dict_Inl dict_key_Inl py_startswith_Inl)
qed

lemma rv_perf_bowling_figures:
  "rv_perf num opp names club perf = Inr (b, w) \<Longrightarrow> list_all (\<lambda>r. True) b \<and> list_all bowling_figures w"
  using rv_perf_Inr [of num opp names club perf b w] rv_bowling_record_figures
  by (auto simp: list_all_iff)

lemma rv_innings_bowling_figures:
  assumes "rv_innings num opp names club i = Inr (b, w)"
  shows "list_all (\<lambda>r. True) b \<and> list_all bowling_figures w"
proof -
  from assms obtain xs where "for_each (rv_perf num opp names club) xs = Inr (b, w)"
    by (auto simp: rv_innings_def bindE_eq_Inr)
  then show ?thesis
    by (rule for_each_rows [rotated]) (simp add: rv_perf_bowling_figures)
qed

lemma rv_team_bowling_figures:
  assumes "rv_team team_name num opp names t = Inr (b, w)"
  shows "list_all (\<lambda>r. True) b \<and> list_all bowling_figures w"
proof -
  from assms obtain club xs where "for_each (rv_innings num opp names club) xs = Inr (b, w)"
    by (auto simp: rv_team_def bindE_eq_Inr)
  then show ?thesis
    by (rule for_each_rows [rotated]) (simp add: rv_innings_bowling_figures)
qed

lemma rv_innings_no_division_error:
  "rv_innings num opp names club i \<noteq> Inl ZeroDivisionError"
  using rv_perf_no_division_error
  by (auto simp: rv_innings_def bindE_eq_Inl dest: py_get_Inl py_iter_Inl for_each_Inl)

lemma rv_team_no_division_error:
  "rv_team team_name num opp names t \<noteq> Inl ZeroDivisionError"
  using rv_innings_no_division_error
  by (auto simp: rv_team_def bindE_eq_Inl dest: py_get_Inl py_iter_Inl py_in_Inl for_each_Inl)

lemma rv_member_Inl: "rv_member player names = Inl e \<Longrightarrow> e \<noteq> ZeroDivisionError"
  by (auto simp: rv_member_def bindE_eq_Inl Let_def split: option.splits
           dest: as_dict_Inl dict_subscript_Inl dict_key_Inl)

lemma rv_team_members_Inl: "rv_team_members t names = Inl e \<Longrightarrow> e \<noteq> ZeroDivisionError"
  by (auto simp: rv_team_members_def bindE_eq_Inl
           dest: py_get_Inl py_iter_Inl fold_each_Inl rv_member_Inl)

text \<open>
  Claim C6. \<open>results_vault_process_data\<close> never raises ZeroDivisionError, and in every
  bowling record it returns: \<open>Fours\<close> and \<open>Sixes\<close> are \<open>None\<close>; \<open>Economy\<close> is \<open>None\<close> when
  \<open>Overs\<close> is zero (or otherwise falsy); and when \<open>Overs\<close> is a number other than zero
  and \<open>Runs\<close> a number, \<open>Economy\<close> is their quotient rounded to two decimals, as floats
  are: the float of the hundredth nearest to the float quotient, the even hundredth when
  two are equally near, each float within a relative \<open>2 ^ - 53\<close> of what it rounds.
\<close>

theorem results_vault_bowling_figures:
  "results_vault_process_data team_name data \<noteq> Inl ZeroDivisionError
   \<and> (results_vault_process_data team_name data = Inr (batting, bowling) \<longrightarrow>
        (\<forall>r \<in> set bowling.
           map_of r ''Fours'' = Some JNull \<and> map_of r ''Sixes'' = Some JNull
           \<and> (\<not> truthy (cell ''Overs'' r) \<longrightarrow> map_of r ''Economy'' = Some JNull)
           \<and> (\<forall>overs runs. as_number (cell ''Overs'' r) = Some overs \<and> overs \<noteq> 0
                 \<and> as_number (cell ''Runs'' r) = Some runs
                 \<longrightarrow> (\<exists>economy. map_of r ''Economy'' = Some (JNum economy)
                        \<and> rounded_quotient runs overs economy))))"
proof (intro conjI impI)
  show "results_vault_process_data team_name data \<noteq> Inl ZeroDivisionError"
    using rv_team_no_division_error
    by (auto simp: results_vault_process_data_def bindE_eq_Inl
             split: if_splits
             dest: py_get_Inl py_iter_Inl py_in_Inl replace_strip_Inl for_each_Inl
                   fold_each_Inl rv_team_members_Inl)
next
  assume "results_vault_process_data team_name data = Inr (batting, bowling)"
  then obtain num opp names xs where
    "for_each (rv_team team_name num opp names) xs = Inr (batting, bowling)"
    by (auto simp: results_vault_process_data_def bindE_eq_Inr split: if_splits)
  then have "list_all (\<lambda>r. True) batting \<and> list_all bowling_figures bowling"
    by (rule for_each_rows [rotated]) (simp add: rv_team_bowling_figures)
  then show "\<forall>r \<in> set bowling.
           map_of r ''Fours'' = Some JNull \<and> map_of r ''Sixes'' = Some JNull
           \<and> (\<not> truthy (cell ''Overs'' r) \<longrightarrow> map_of r ''Economy'' = Some JNull)
           \<and> (\<forall>overs runs. as_number (cell ''Overs'' r) = Some overs \<and> overs \<noteq> 0
                 \<and> as_number (cell ''Runs'' r) = Some runs
                 \<longrightarrow> (\<exists>economy. map_of r ''Economy'' = Some (JNum economy)
                        \<and> rounded_quotient runs overs economy))"
    by (simp add: list_all_iff bowling_figures_def)
qed


theorem results_vault_bowling_figures_witness:
  "results_vault_process_data ''Lightcliffe CC'' rv_away_example
     = Inr (rv_away_batting, rv_away_bowling)
   \<and> results_vault_process_data ''Lightcliffe CC'' rv_away_example \<noteq> Inl ZeroDivisionError
   \<and> map (cell ''Overs'') rv_away_bowling = [JNum 4, JNum 0, JNum 40]
   \<and> map (cell ''Runs'') rv_away_bowling = [JNum 17, JNum 0, JNum 43]
   \<and> map (\<lambda>r. map_of r ''Economy'') rv_away_bowling
       = [Some (JNum (17 / 4)), Some JNull,
          Some (JNum (4818851601286431 / 4503599627370496))]
   \<and> to_double (43 / 40) = 4841369599423283 / 4503599627370496
   \<and> round2 (4841369599423283 / 4503599627370496) = 107 / 100
   \<and> to_double (107 / 100) = 4818851601286431 / 4503599627370496
   \<and> map (\<lambda>r. map_of r ''Fours'') rv_away_bowling = [Some JNull, Some JNull, Some JNull]
   \<and> map (\<lambda>r. map_of r ''Sixes'') rv_away_bowling = [Some JNull, Some JNull, Some JNull]"
proof -
  have a: "results_vault_process_data ''Lightcliffe CC'' rv_away_example
             = Inr (rv_away_batting, rv_away_bowling)"
    by code_simp
  have b: "map (cell ''Overs'') rv_away_bowling = [JNum 4, JNum 0, JNum 40]
           \<and> map (cell ''Runs'') rv_away_bowling = [JNum 17, JNum 0, JNum 43]
           \<and> map (\<lambda>r. map_of r ''Economy'') rv_away_bowling
               = [Some (JNum (17 / 4)), Some JNull,
                  Some (JNum (4818851601286431 / 4503599627370496))]
           \<and> map (\<lambda>r. map_of r ''Fours'') rv_away_bowling = [Some JNull, Some JNull, Some JNull]
           \<and> map (\<lambda>r. map_of r ''Sixes'') rv_away_bowling = [Some JNull, Some JNull, Some JNull]"
    by (simp add: rv_away_bowling_def cell_def)
  have d: "to_double (43 / 40) = 4841369599423283 / 4503599627370496"
    "round2 (4841369599423283 / 4503599627370496) = 107 / 100"
    "to_double (107 / 100) = 4818851601286431 / 4503599627370496"
    by code_simp+
  from results_vault_bowling_figures
         [of "''Lightcliffe CC''" rv_away_example rv_away_batting rv_away_bowling]
  have c: "results_vault_process_data ''Lightcliffe CC'' rv_away_example \<noteq> Inl ZeroDivisionError"
    by (rule conjunct1)
  from a b c d show ?thesis by simp
qed

section \<open>The selector: ranking, merge and fill\<close>











lemma top_6_set:
  "r \<in> set (top_6 c1 c2 df) \<Longrightarrow>
     r \<in> set df \<and> cell ''PlayerName'' r \<notin> set [JStr ''Extras'', JStr ''Total'']"
  by (auto simp: top_6_def sort_values_def dest: in_set_takeD)



lemma map_fst_set_cell [simp]: "map fst (set_cell c f r) = map fst r"
  by (induction r) (auto simp: set_cell_def)

lemma season_table_has_column:
  "season_table cols df \<Longrightarrow> has_column c df \<longleftrightarrow> c \<in> set cols"
proof -
  assume t: "season_table cols df"
  then obtain r where r: "r \<in> set df"
    by (cases df) (auto simp: season_table_def)
  from t have "\<forall>r \<in> set df. set (map fst r) = set cols"
    by (auto simp: season_table_def list_all_iff)
  with r show ?thesis
    unfolding has_column_def by blast
qed

lemma season_table_normalised:
  "season_table cols df \<Longrightarrow> list_all (\<lambda>r. map fst r = cols) (normalised df)"
  by (simp add: season_table_def normalised_def list_all_iff)

lemma merged_rows:
  "drop_column ''Player Name'' (merge_left df result)
     = concat (map (\<lambda>r. map (merged_row r) (sponsor_cells result r)) df)"
proof -
  have "map (filter (\<lambda>(k, x). k \<noteq> ''Player Name''))
          (case filter (\<lambda>(p, s). p = cell ''PlayerName'' r) result of
             [] \<Rightarrow> [r @ [(''Player Name'', JNull), (''Sponsor Name'', JNull)]]
           | m # ms \<Rightarrow> map (\<lambda>(p, s). r @ [(''Player Name'', p), (''Sponsor Name'', s)]) (m # ms))
        = map (merged_row r) (sponsor_cells result r)" for r
    by (cases "filter (\<lambda>(p, s). p = cell ''PlayerName'' r) result")
       (auto simp: sponsor_cells_def sponsors_of_def merged_row_def split: prod.splits)
  then show ?thesis
    by (simp add: drop_column_def merge_left_def map_concat comp_def)
qed

lemma sponsors_of_distinct:
  "distinct (map fst result) \<Longrightarrow> length (sponsors_of result name) \<le> 1"
proof (induction result)
  case Nil
  show ?case by (simp add: sponsors_of_def)
next
  case (Cons a result)
  obtain p s where a: "a = (p, s)" by (cases a)
  show ?case
  proof (cases "p = name")
    case True
    with Cons.prems a have "filter (\<lambda>(p, s). p = name) result = []"
      by (force simp: filter_empty_conv)
    with True a show ?thesis by (simp add: sponsors_of_def)
  next
    case False
    with Cons a show ?thesis by (simp add: sponsors_of_def)
  qed
qed

lemma sponsor_cells_distinct:
  "distinct (map fst result) \<Longrightarrow> sponsor_cells result r = [hd (sponsor_cells result r)]"
  using sponsors_of_distinct [of result "cell ''PlayerName'' r"]
  by (cases "sponsors_of result (cell ''PlayerName'' r)") (auto simp: sponsor_cells_def)

lemma merged_rows_distinct:
  assumes "distinct (map fst result)"
  shows "drop_column ''Player Name'' (merge_left df result)
           = map (\<lambda>r. merged_row r (hd (sponsor_cells result r))) df"
proof -
  have "map (merged_row r) (sponsor_cells result r) = [merged_row r (hd (sponsor_cells result r))]"
    for r
    using sponsor_cells_distinct [OF assms, of r] by (metis list.simps(8,9))
  then show ?thesis
    by (simp add: merged_rows)
qed

lemma data_wrangling_Inr:
  "data_wrangling bat bowl result = Inr (tb, tw) \<longleftrightarrow>
     (has_column ''PlayerName'' bat \<and> has_column ''PlayerName'' bowl
      \<and> has_column ''Runs'' bat \<and> has_column ''Balls'' bat
      \<and> has_column ''Wickets'' bowl \<and> has_column ''Runs'' bowl)
     \<and> tb = fillna batting_placeholder (merged_batters bat result)
     \<and> tw = fillna_column ''Sponsor Name'' bowling_placeholder (merged_bowlers bowl result)"
  by (auto simp: data_wrangling_def Let_def merged_batters_def merged_bowlers_def
                 batting_selection_def bowling_selection_def normalised_def
                 batting_placeholder_def bowling_placeholder_def)

lemma map_of_relabel:
  "map_of (map (\<lambda>(k, x). (k, f k x)) r) c = map_option (f c) (map_of r c)"
  by (induction r) auto

lemma map_fst_relabel: "map fst (map (\<lambda>(k, x). (k, f k x)) r) = map fst r"
  by (induction r) auto

lemma fillna_rows:
  "list_all2 (\<lambda>m out. map fst out = map fst m
                \<and> (\<forall>c. map_of out c = map_option (filled v) (map_of m c))) df (fillna v df)"
proof -
  have "map_of (map (\<lambda>(k, x). (k, if x = JNull then v else x)) m) c
          = map_option (filled v) (map_of m c)" for m :: row and c
    using map_of_relabel [of "\<lambda>k x. if x = JNull then v else x" m c]
    by (cases "map_of m c") (auto simp: filled_def)
  moreover have "map fst (map (\<lambda>(k, x). (k, if x = JNull then v else x)) m) = map fst m"
    for m :: row
    by (rule map_fst_relabel)
  ultimately show ?thesis
    unfolding fillna_def
    by (simp add: list_all2_map2 list_all2_same del: map_map)
qed

lemma fillna_column_rows:
  "list_all2 (\<lambda>m out. map fst out = map fst m
                \<and> (\<forall>c. map_of out c = (if c = col then map_option (filled v) (map_of m c)
                                         else map_of m c))) df (fillna_column col v df)"
proof -
  have "map_of (map (\<lambda>(k, x). (k, if k = col \<and> x = JNull then v else x)) m) c
          = (if c = col then map_option (filled v) (map_of m c) else map_of m c)" for m c
    using map_of_relabel [of "\<lambda>k x. if k = col \<and> x = JNull then v else x" m c]
    by (cases "map_of m c") (auto simp: filled_def)
  moreover have "map fst (map (\<lambda>(k, x). (k, if k = col \<and> x = JNull then v else x)) m) = map fst m"
    for m
    by (rule map_fst_relabel)
  ultimately show ?thesis
    unfolding fillna_column_def
    by (simp add: list_all2_map2 list_all2_same del: map_map)
qed

lemma fillna_no_missing:
  "v \<noteq> JNull \<Longrightarrow> out \<in> set (fillna v df) \<Longrightarrow> JNull \<notin> snd ` set out"
  by (auto simp: fillna_def split: if_splits)

lemma map_of_drop_key: "c \<noteq> k \<Longrightarrow> map_of (filter (\<lambda>(k', x). k' \<noteq> k) r) c = map_of r c"
  by (induction r) auto

lemma map_of_merged_row:
  "c \<noteq> ''Player Name'' \<Longrightarrow> c \<noteq> ''Sponsor Name'' \<Longrightarrow> map_of (merged_row r s) c = map_of r c"
  by (simp add: merged_row_def map_add_def map_of_drop_key split: option.splits)

lemma map_of_merged_row_sponsor:
  "''Sponsor Name'' \<notin> set (map fst r) \<Longrightarrow> map_of (merged_row r s) ''Sponsor Name'' = Some s"
proof -
  assume "''Sponsor Name'' \<notin> set (map fst r)"
  then have "map_of (filter (\<lambda>(k, x). k \<noteq> ''Player Name'') r) ''Sponsor Name'' = None"
    by (induction r) auto
  then show ?thesis
    by (simp add: merged_row_def map_add_def)
qed

text \<open>
  Claim C9. In the batting table that \<open>data_wrangling\<close> returns, every row is a row of the
  merged table with the same columns, and each cell of each column is the merged cell,
  or \<open>'Available To Sponsor'\<close> where the merged cell is missing, so that no missing
  value is left. In the bowling table only \<open>Sponsor Name\<close> is filled, with
  \<open>'Available to Sponsor'\<close>, and every other cell is the merged cell. A merged row is a
  selected row followed by its sponsor cell.
\<close>

theorem data_wrangling_fill:
  assumes "data_wrangling bat bowl result = Inr (top_6_batters, top_6_bowlers)"
  shows "list_all2 (\<lambda>m out. map fst out = map fst m
                       \<and> (\<forall>c. map_of out c = map_option (filled batting_placeholder) (map_of m c)))
           (merged_batters bat result) top_6_batters
         \<and> (\<forall>out \<in> set top_6_batters. JNull \<notin> snd ` set out)
         \<and> list_all2 (\<lambda>m out. map fst out = map fst m
                       \<and> (\<forall>c. map_of out c =
                              (if c = ''Sponsor Name''
                               then map_option (filled bowling_placeholder) (map_of m c)
                               else map_of m c)))
           (merged_bowlers bowl result) top_6_bowlers
         \<and> merged_batters bat result
             = concat (map (\<lambda>r. map (merged_row r) (sponsor_cells result r)) (batting_selection bat))
         \<and> merged_bowlers bowl result
             = concat (map (\<lambda>r. map (merged_row r) (sponsor_cells result r)) (bowling_selection bowl))"
proof -
  from assms have
    tb: "top_6_batters = fillna batting_placeholder (merged_batters bat result)" and
    tw: "top_6_bowlers = fillna_column ''Sponsor Name'' bowling_placeholder (merged_bowlers bowl result)"
    by (simp_all add: data_wrangling_Inr)
  have "batting_placeholder \<noteq> JNull"
    by (simp add: batting_placeholder_def)
  then have "\<forall>out \<in> set top_6_batters. JNull \<notin> snd ` set out"
    unfolding tb using fillna_no_missing by blast
  then show ?thesis
    unfolding tb tw
    by (simp add: fillna_rows fillna_column_rows merged_batters_def merged_bowlers_def merged_rows)
qed

lemma cell_fill_row:
  "cell c (map (\<lambda>(k, x). (k, if x = JNull then v else x)) m)
     = (case map_of m c of None \<Rightarrow> JNull | Some x \<Rightarrow> filled v x)"
  using map_of_relabel [of "\<lambda>k x. if x = JNull then v else x" m c]
  by (cases "map_of m c") (auto simp: cell_def dict_get_def filled_def)

lemma cell_fill_column:
  "cell c (map (\<lambda>(k, x). (k, if k = col \<and> x = JNull then v else x)) m)
     = (case map_of m c of None \<Rightarrow> JNull | Some x \<Rightarrow> if c = col then filled v x else x)"
  using map_of_relabel [of "\<lambda>k x. if k = col \<and> x = JNull then v else x" m c]
  by (cases "map_of m c") (auto simp: cell_def dict_get_def filled_def)

lemma cell_fill_column_same:
  "cell col (map (\<lambda>(k, x). (k, if k = col \<and> x = JNull then v else x)) m)
     = (case map_of m col of None \<Rightarrow> JNull | Some x \<Rightarrow> filled v x)"
  by (cases "map_of m col") (simp_all add: cell_fill_column)

lemma season_table_returns:
  assumes "season_table batting_columns bat" and "season_table bowling_columns bowl"
  shows "data_wrangling bat bowl result
           = Inr (fillna batting_placeholder (merged_batters bat result),
                  fillna_column ''Sponsor Name'' bowling_placeholder (merged_bowlers bowl result))"
  using assms
  by (simp add: data_wrangling_Inr season_table_has_column batting_columns_def bowling_columns_def)

lemma selection_columns:
  assumes "season_table cols df" and "r \<in> set (top_6 c1 c2 (normalised df))"
  shows "map fst r = cols"
  using season_table_normalised [OF assms(1)] top_6_set [OF assms(2)]
  by (simp add: list_all_iff)

lemma load_sponsor_data_no_missing:
  "load_sponsor_data sheet = Inr result \<Longrightarrow> s \<in> set (sponsors_of result name) \<Longrightarrow> s \<noteq> JNull"
  by (cases sheet) (auto simp: load_sponsor_data_def sponsors_of_def)

lemma filled_sponsor_cells:
  assumes "load_sponsor_data sheet = Inr result" and "v \<noteq> JNull"
  shows "map (filled v) (sponsor_cells result r)
           = (case sponsors_of result (cell ''PlayerName'' r) of [] \<Rightarrow> [v] | s # ss \<Rightarrow> s # ss)"
proof (cases "sponsors_of result (cell ''PlayerName'' r)")
  case Nil
  then show ?thesis by (simp add: sponsor_cells_def filled_def)
next
  case (Cons s ss)
  have "map (filled v) (s # ss) = s # ss"
    using load_sponsor_data_no_missing [OF assms(1), of _ "cell ''PlayerName'' r"] Cons
    by (intro map_idI) (auto simp: filled_def)
  with Cons show ?thesis by (simp add: sponsor_cells_def)
qed

lemma sponsor_column_of_merged:
  assumes "\<And>r. r \<in> set sel \<Longrightarrow> ''Sponsor Name'' \<notin> set (map fst r)"
  shows "map (\<lambda>m. map_of m ''Sponsor Name'')
           (concat (map (\<lambda>r. map (merged_row r) (sponsor_cells result r)) sel))
         = map Some (concat (map (sponsor_cells result) sel))"
  using assms
  by (induction sel) (simp_all add: map_of_merged_row_sponsor comp_def)


lemma sponsor_column:
  assumes sel: "\<And>r. r \<in> set sel \<Longrightarrow> ''Sponsor Name'' \<notin> set (map fst r)"
    and sheet: "load_sponsor_data sheet = Inr result" and v: "v \<noteq> JNull"
  shows "map (cell ''Sponsor Name'')
           (fillna v (concat (map (\<lambda>r. map (merged_row r) (sponsor_cells result r)) sel)))
         = concat (map (\<lambda>r. case sponsors_of result (cell ''PlayerName'' r) of
                               [] \<Rightarrow> [v] | s # ss \<Rightarrow> s # ss) sel)"
    and "map (cell ''Sponsor Name'')
           (fillna_column ''Sponsor Name'' v
              (concat (map (\<lambda>r. map (merged_row r) (sponsor_cells result r)) sel)))
         = concat (map (\<lambda>r. case sponsors_of result (cell ''PlayerName'' r) of
                               [] \<Rightarrow> [v] | s # ss \<Rightarrow> s # ss) sel)"
proof -
  let ?M = "concat (map (\<lambda>r. map (merged_row r) (sponsor_cells result r)) sel)"
  let ?fill = "\<lambda>cell. case cell of None \<Rightarrow> JNull | Some x \<Rightarrow> filled v x"
  have cells: "map (\<lambda>m. map_of m ''Sponsor Name'') ?M = map Some (concat (map (sponsor_cells result) sel))"
    using sel by (rule sponsor_column_of_merged)
  have "map (cell ''Sponsor Name'') (fillna v ?M) = map ?fill (map (\<lambda>m. map_of m ''Sponsor Name'') ?M)"
    unfolding fillna_def by (simp add: cell_fill_row comp_def del: map_concat)
  moreover have "map (cell ''Sponsor Name'') (fillna_column ''Sponsor Name'' v ?M)
                   = map ?fill (map (\<lambda>m. map_of m ''Sponsor Name'') ?M)"
    unfolding fillna_column_def by (simp add: cell_fill_column_same comp_def del: map_concat)
  moreover have "map ?fill (map Some (concat (map (sponsor_cells result) sel)))
                   = concat (map (\<lambda>r. map (filled v) (sponsor_cells result r)) sel)"
    by (simp add: comp_def map_concat)
  moreover have "(\<lambda>r. map (filled v) (sponsor_cells result r))
                   = (\<lambda>r. case sponsors_of result (cell ''PlayerName'' r) of
                             [] \<Rightarrow> [v] | s # ss \<Rightarrow> s # ss)"
    by (intro ext) (rule filled_sponsor_cells [OF sheet v])
  ultimately show
    "map (cell ''Sponsor Name'') (fillna v ?M)
       = concat (map (\<lambda>r. case sponsors_of result (cell ''PlayerName'' r) of
                             [] \<Rightarrow> [v] | s # ss \<Rightarrow> s # ss) sel)"
    "map (cell ''Sponsor Name'') (fillna_column ''Sponsor Name'' v ?M)
       = concat (map (\<lambda>r. case sponsors_of result (cell ''PlayerName'' r) of
                             [] \<Rightarrow> [v] | s # ss \<Rightarrow> s # ss) sel)"
    using cells by simp_all
qed

text \<open>
  Claim C8. On season tables and the roster read from the sheet, \<open>data_wrangling\<close>
  returns, and the \<open>Sponsor Name\<close> column of each table lists, for the selected records
  in rank order, the sponsors of the roster rows with exactly the record's normalised
  name, or the placeholder when there is no such row: \<open>'Available To Sponsor'\<close> for
  batting, \<open>'Available to Sponsor'\<close> for bowling.
\<close>

theorem data_wrangling_sponsors:
  assumes "season_table batting_columns bat" and "season_table bowling_columns bowl"
    and "load_sponsor_data sheet = Inr result"
  shows "\<exists>top_6_batters top_6_bowlers.
           data_wrangling bat bowl result = Inr (top_6_batters, top_6_bowlers)
           \<and> map (cell ''Sponsor Name'') top_6_batters
               = concat (map (\<lambda>r. case sponsors_of result (cell ''PlayerName'' r) of
                                     [] \<Rightarrow> [JStr ''Available To Sponsor'']
                                   | s # ss \<Rightarrow> s # ss) (batting_selection bat))
           \<and> map (cell ''Sponsor Name'') top_6_bowlers
               = concat (map (\<lambda>r. case sponsors_of result (cell ''PlayerName'' r) of
                                     [] \<Rightarrow> [JStr ''Available to Sponsor'']
                                   | s # ss \<Rightarrow> s # ss) (bowling_selection bowl))"
proof -
  have b: "''Sponsor Name'' \<notin> set (map fst r)" if "r \<in> set (batting_selection bat)" for r
    using selection_columns [OF assms(1)] that
    by (simp add: batting_selection_def batting_columns_def)
  have w: "''Sponsor Name'' \<notin> set (map fst r)" if "r \<in> set (bowling_selection bowl)" for r
    using selection_columns [OF assms(2)] that
    by (simp add: bowling_selection_def bowling_columns_def)
  have "batting_placeholder \<noteq> JNull" "bowling_placeholder \<noteq> JNull"
    by (simp_all add: batting_placeholder_def bowling_placeholder_def)
  with sponsor_column(1) [OF b assms(3)] sponsor_column(2) [OF w assms(3)]
  show ?thesis
    unfolding season_table_returns [OF assms(1,2)]
    by (simp add: merged_batters_def merged_bowlers_def merged_rows
                  batting_placeholder_def bowling_placeholder_def)
qed














lemma data_wrangling_no_rows: "data_wrangling [] bowl result = Inl KeyError"
  by (simp add: data_wrangling_def has_column_def)


text \<open>The example season.\<close>

lemma season_tables: "season_table batting_columns season_batting"
  "season_table bowling_columns season_bowling"
  by code_simp+



text \<open>Ranking columns that hold strings: by code point, above the numbers.\<close>

lemma sort_values_strings:
  "map (cell ''Runs'')
     (sort_values ''Runs'' ''Balls''
        [batting_row ''A'' (JStr ''45'') (JNum 1), batting_row ''B'' (JNum 7) (JNum 1),
         batting_row ''C'' JNull (JNum 1), batting_row ''D'' (JStr ''9'') (JNum 1),
         batting_row ''E'' (JNum 50) (JNum 1)])
     = [JStr ''9'', JStr ''45'', JNum 50, JNum 7, JNull]"
  by code_simp

theorem data_wrangling_sponsors_witness:
  "season_table batting_columns season_batting \<and> season_table bowling_columns season_bowling
   \<and> load_sponsor_data (Inr sponsor_rows) = Inr season_result
   \<and> (\<exists>top_6_batters top_6_bowlers.
         data_wrangling season_batting season_bowling season_result
           = Inr (top_6_batters, top_6_bowlers)
         \<and> map (cell ''PlayerName'') top_6_batters
             = [JStr ''Ted Stead'', JStr ''C Hitter'', JStr ''A Batter'', JStr ''G Twenty'',
                JStr ''F Ten'', JStr ''E Five'']
         \<and> map (cell ''Sponsor Name'') top_6_batters
             = [JStr ''Acme Ltd'', JStr ''Available To Sponsor'', JStr ''Available To Sponsor'',
                JStr ''Available To Sponsor'', JStr ''Available To Sponsor'',
                JStr ''Available To Sponsor'']
         \<and> map (cell ''PlayerName'') top_6_bowlers
             = [JStr ''C Change'', JStr ''B Bowler'', JStr ''Ted Stead'']
         \<and> map (cell ''Sponsor Name'') top_6_bowlers
             = [JStr ''Available to Sponsor'', JStr ''The Bakery'', JStr ''Acme Ltd''])"
proof -
  have a: "season_table batting_columns season_batting"
    and b: "season_table bowling_columns season_bowling"
    by (rule season_tables)+
  have c: "load_sponsor_data (Inr sponsor_rows) = Inr season_result"
    by code_simp
  have ev: "(case data_wrangling season_batting season_bowling season_result of
               Inl e \<Rightarrow> False
             | Inr (tb, tw) \<Rightarrow>
                 map (cell ''PlayerName'') tb
                   = [JStr ''Ted Stead'', JStr ''C Hitter'', JStr ''A Batter'', JStr ''G Twenty'',
                      JStr ''F Ten'', JStr ''E Five'']
                 \<and> map (cell ''Sponsor Name'') tb
                     = [JStr ''Acme Ltd'', JStr ''Available To Sponsor'',
                        JStr ''Available To Sponsor'', JStr ''Available To Sponsor'',
                        JStr ''Available To Sponsor'', JStr ''Available To Sponsor'']
                 \<and> map (cell ''PlayerName'') tw
                     = [JStr ''C Change'', JStr ''B Bowler'', JStr ''Ted Stead'']
                 \<and> map (cell ''Sponsor Name'') tw
                     = [JStr ''Available to Sponsor'', JStr ''The Bakery'', JStr ''Acme Ltd''])"
    by code_simp
  from data_wrangling_sponsors [OF a b c] obtain tb tw where
    r: "data_wrangling season_batting season_bowling season_result = Inr (tb, tw)"
    by blast
  from ev r a b c show ?thesis by simp
qed

theorem data_wrangling_fill_witness:
  "\<exists>top_6_batters top_6_bowlers.
     data_wrangling season_batting season_bowling season_result
       = Inr (top_6_batters, top_6_bowlers)
     \<and> list_all2 (\<lambda>m out. map fst out = map fst m
                     \<and> (\<forall>c. map_of out c = map_option (filled batting_placeholder) (map_of m c)))
         (merged_batters season_batting season_result) top_6_batters
     \<and> map (cell ''Minutes'') (merged_batters season_batting season_result)
         = [JNull, JNull, JNull, JNull, JNull, JNull]
     \<and> map (cell ''Minutes'') top_6_batters
         = [JStr ''Available To Sponsor'', JStr ''Available To Sponsor'',
            JStr ''Available To Sponsor'', JStr ''Available To Sponsor'',
            JStr ''Available To Sponsor'', JStr ''Available To Sponsor'']
     \<and> map (cell ''Economy'') (merged_bowlers season_bowling season_result)
         = [JNull, JNull, JNull]
     \<and> map (cell ''Economy'') top_6_bowlers = [JNull, JNull, JNull]"
proof -
  have ev: "(case data_wrangling season_batting season_bowling season_result of
               Inl e \<Rightarrow> False
             | Inr (tb, tw) \<Rightarrow>
                 map (cell ''Minutes'') tb
                   = [JStr ''Available To Sponsor'', JStr ''Available To Sponsor'',
                      JStr ''Available To Sponsor'', JStr ''Available To Sponsor'',
                      JStr ''Available To Sponsor'', JStr ''Available To Sponsor'']
                 \<and> map (cell ''Economy'') tw = [JNull, JNull, JNull])"
    by code_simp
  have m: "map (cell ''Minutes'') (merged_batters season_batting season_result)
             = [JNull, JNull, JNull, JNull, JNull, JNull]"
    "map (cell ''Economy'') (merged_bowlers season_bowling season_result) = [JNull, JNull, JNull]"
    by code_simp+
  from ev obtain tb tw where
    r: "data_wrangling season_batting season_bowling season_result = Inr (tb, tw)"
    by (cases "data_wrangling season_batting season_bowling season_result") auto
  from data_wrangling_fill [OF r, THEN conjunct1] ev r m show ?thesis by simp
qed

section \<open>The tables of the parsers are season tables\<close>

lemma nv_batting_record_columns:
  "nv_batting_record num opp e = Inr r \<Longrightarrow> map fst r = batting_columns"
  by (auto simp: nv_batting_record_def bindE_eq_Inr batting_columns_def)

lemma nv_bowling_record_columns:
  "nv_bowling_record num opp e = Inr r \<Longrightarrow> map fst r = bowling_columns"
  by (auto simp: nv_bowling_record_def bindE_eq_Inr bowling_columns_def)

lemma rv_batting_record_columns: "map fst (rv_batting_record num opp name p) = batting_columns"
  by (simp add: rv_batting_record_def batting_columns_def)

lemma rv_bowling_record_columns:
  "rv_bowling_record num opp name p = Inr r \<Longrightarrow> map fst r = bowling_columns"
  by (auto simp: rv_bowling_record_def Let_def bindE_eq_Inr bowling_columns_def)

lemma list_all2_right: "list_all2 R xs ys \<Longrightarrow> (\<And>x y. R x y \<Longrightarrow> P y) \<Longrightarrow> list_all P ys"
  by (induction rule: list_all2_induct) auto

lemma nv_process_data_columns:
  assumes "nv_process_data team_name data = Inr (batting, bowling)"
  shows "list_all (\<lambda>r. map fst r = batting_columns) batting
         \<and> list_all (\<lambda>r. map fst r = bowling_columns) bowling"
proof -
  from assms obtain num opp xs where
    "for_each (nv_innings team_name num opp) xs = Inr (batting, bowling)"
    by (auto simp: nv_process_data_def bindE_eq_Inr)
  from nv_loop_Inr [OF this] show ?thesis
    by (auto elim!: list_all2_right dest: nv_batting_record_columns nv_bowling_record_columns)
qed

lemma rv_perf_columns:
  assumes "rv_perf num opp names club perf = Inr (b, w)"
  shows "list_all (\<lambda>r. map fst r = batting_columns) b
         \<and> list_all (\<lambda>r. map fst r = bowling_columns) w"
  using assms
  by (auto simp: rv_perf_def bindE_eq_Inr Let_def rv_batting_record_columns
           split: option.splits if_splits dest: rv_bowling_record_columns)

lemma results_vault_process_data_columns:
  assumes "results_vault_process_data team_name data = Inr (batting, bowling)"
  shows "list_all (\<lambda>r. map fst r = batting_columns) batting
         \<and> list_all (\<lambda>r. map fst r = bowling_columns) bowling"
proof -
  let ?P = "\<lambda>r. map fst r = batting_columns" and ?Q = "\<lambda>r. map fst r = bowling_columns"
  have inn: "list_all ?P b \<and> list_all ?Q w"
    if "rv_innings num opp names club i = Inr (b, w)" for num opp names club i b w
  proof -
    from that obtain xs where "for_each (rv_perf num opp names club) xs = Inr (b, w)"
      by (auto simp: rv_innings_def bindE_eq_Inr)
    then show ?thesis
      by (rule for_each_rows [rotated]) (simp add: rv_perf_columns)
  qed
  have team: "list_all ?P b \<and> list_all ?Q w"
    if "rv_team team_name num opp names t = Inr (b, w)" for num opp names t b w
  proof -
    from that obtain club xs where "for_each (rv_innings num opp names club) xs = Inr (b, w)"
      by (auto simp: rv_team_def bindE_eq_Inr)
    then show ?thesis
      by (rule for_each_rows [rotated]) (simp add: inn)
  qed
  from assms obtain num opp names xs where
    "for_each (rv_team team_name num opp names) xs = Inr (batting, bowling)"
    by (auto simp: results_vault_process_data_def bindE_eq_Inr split: if_splits)
  then show ?thesis
    by (rule for_each_rows [rotated]) (simp add: team)
qed

section \<open>Parser B: a bowling entry without overs\<close>

lemma rv_bowling_record_no_overs:
  "\<not> truthy (dict_get p ''overs'' (JNum 0)) \<Longrightarrow>
     \<exists>r. rv_bowling_record num opp name p = Inr r \<and> map_of r ''Economy'' = Some JNull"
  by (simp add: rv_bowling_record_def Let_def)

lemma rv_bowling_record_overs:
  "as_number (dict_get p ''overs'' (JNum 0)) = Some overs \<Longrightarrow> overs \<noteq> 0 \<Longrightarrow>
   as_number (dict_get p ''runs'' (JNum 0)) = Some runs \<Longrightarrow>
     \<exists>r. rv_bowling_record num opp name p = Inr r
        \<and> map_of r ''Economy''
            = Some (JNum (float_round2 (to_double (decoded runs / decoded overs))))"
  by (cases "dict_get p ''overs'' (JNum 0)")
     (auto simp: rv_bowling_record_def Let_def py_truediv_def split: if_splits)

section \<open>Parser B: the unbound name map\<close>

lemma results_vault_unbound_names:
  assumes "dict_get kvs ''home_name'' (JStr []) = JStr home" and "contains home team_name"
    and "dict_get kvs ''MatchTeams'' (JList []) = JList (JObj t # ts)"
    and "dict_get t ''TeamMembers'' (JList []) = JList (JObj p # ps)"
  shows "results_vault_process_data team_name (JObj kvs) = Inl NameError"
  using assms
  by (simp add: results_vault_process_data_def py_get_def rv_team_members_def rv_member_def)

section \<open>The positions of none and of several entries\<close>

lemma mapE_map: "\<forall>x \<in> set xs. f x = Inr (g x) \<Longrightarrow> mapE f xs = Inr (map g xs)"
  by (induction xs) simp_all

lemma y_positions_no_entry: "y_positions 0 = Inr []"
  by (simp add: y_positions_def)

lemma y_positions_several:
  assumes "2 \<le> n"
  shows "y_positions n
           = Inr (map (\<lambda>i. \<lfloor>to_double (start_y
                               + to_double (of_nat i * (end_y - start_y) / (of_nat n - 1)))\<rfloor>)
                    [0..<n])"
proof -
  from assms have n: "(of_nat n :: rat) - 1 > 0" by simp
  have dn: "decoded (of_nat n - 1) = of_nat n - 1"
    using decoded_of_int [of "int n - 1"] by simp
  have "y_position n i
          = Inr \<lfloor>to_double (start_y + to_double (of_nat i * (end_y - start_y) / (of_nat n - 1)))\<rfloor>"
    for i
  proof -
    have di: "decoded (of_nat i * (end_y - start_y)) = of_nat i * (end_y - start_y)"
      using decoded_of_int [of "int i * 915"] by (simp add: start_y_def end_y_def)
    have "0 \<le> of_nat i * (end_y - start_y) / (of_nat n - 1)"
      using n by (simp add: start_y_def end_y_def)
    then have "0 \<le> to_double (of_nat i * (end_y - start_y) / (of_nat n - 1))"
      by (rule to_double_nonneg)
    then have "0 \<le> start_y + to_double (of_nat i * (end_y - start_y) / (of_nat n - 1))"
      by (simp add: start_y_def)
    then have "0 \<le> to_double (start_y
                       + to_double (of_nat i * (end_y - start_y) / (of_nat n - 1)))"
      by (rule to_double_nonneg)
    with n show ?thesis
      by (simp add: y_position_def py_truediv_def py_int_def di dn)
  qed
  then show ?thesis
    unfolding y_positions_def by (intro mapE_map) simp
qed

lemma to_double_exact: "to_double 0 = 0" "to_double 374 = 374" "to_double 915 = 915"
  "to_double 1289 = 1289"
  by code_simp+

lemma y_positions_ends:
  assumes "2 \<le> n"
  shows "\<exists>ys. y_positions n = Inr ys \<and> length ys = n \<and> hd ys = 374 \<and> last ys = 1289"
proof -
  define f :: "nat \<Rightarrow> int"
    where "f i = \<lfloor>to_double (start_y
                     + to_double (of_nat i * (end_y - start_y) / (of_nat n - 1)))\<rfloor>" for i
  from assms have n: "(of_nat n :: rat) - 1 \<noteq> 0" "(of_nat (n - 1) :: rat) = of_nat n - 1"
    by (simp_all add: of_nat_diff)
  then have q: "of_nat (n - 1) * (end_y - start_y) / (of_nat n - 1) = end_y - start_y"
    by simp
  have e: "f (n - 1) = 1289"
    unfolding f_def q by (simp add: start_y_def end_y_def to_double_exact)
  have b: "f 0 = 374"
    unfolding f_def by (simp add: start_y_def to_double_exact)
  from assms have l: "[0..<n] \<noteq> []" "hd [0..<n] = 0" "last [0..<n] = n - 1"
    by (simp_all add: hd_upt last_upt)
  have ys: "y_positions n = Inr (map f [0..<n])"
    unfolding f_def [abs_def] by (rule y_positions_several [OF assms])
  have "hd (map f [0..<n]) = f 0"
    using hd_map [OF l(1), of f] l(2) by simp
  moreover have "last (map f [0..<n]) = f (n - 1)"
    using last_map [OF l(1), of f] l(3) by simp
  ultimately have "hd (map f [0..<n]) = f 0" "last (map f [0..<n]) = f (n - 1)"
    by blast+
  with e b have "hd (map f [0..<n]) = 374" "last (map f [0..<n]) = 1289"
    by simp_all
  with ys show ?thesis by simp
qed

lemma y_positions_six: "y_positions 6 = Inr [374, 557, 740, 923, 1106, 1289]"
  by code_simp

section \<open>The primitives on examples\<close>

text \<open>\<open>strip()\<close> of a no-break space (U+00A0), a space, \<open>1st XI\<close> and a tab is \<open>1st XI\<close>:
  the space inside stays.\<close>

lemma strip_unicode_space:
  "strip ([CHR 0xC2, CHR 0xA0] @ '' 1st XI'' @ [CHR 0x09]) = ''1st XI''"
  by code_simp

text \<open>\<open>round(2.675, 2)\<close> is 2.67, the double below 2.675 being the nearest to it; and
  \<open>round(0.125, 2)\<close> is 0.12, a tie that goes to the even hundredth.\<close>

lemma round_2_675:
  "decoded (2675 / 1000) = 3011782250804019 / 1125899906842624"
  "float_round2 (decoded (2675 / 1000)) = to_double (267 / 100)"
  "to_double (267 / 100) = 1503076375634903 / 562949953421312"
  by code_simp+

lemma round_0_125: "float_round2 (decoded (125 / 1000)) = to_double (12 / 100)"
  by code_simp

end
